theory Spec2Isabelle
  imports Complex_Main "HOL-Library.AList"
begin

section \<open>Data model\<close>

text \<open>
  JavaScript numbers that carry a confidence are modelled as \<^typ>\<open>real\<close>; a \<open>Date\<close> is
  the number of milliseconds since the epoch, an \<^typ>\<open>int\<close>. A \<open>Map\<close> is an association
  list in insertion order (\<open>Map.set\<close> is \<^const>\<open>AList.update\<close>: an existing key keeps its
  place, a new key goes to the end; \<open>Map.get\<close> is \<^const>\<open>map_of\<close>), a \<open>Set\<close> is a list
  without repetition in insertion order, and a plain object used as a dictionary is the
  association list of its own properties in the order of their creation (section
  \<open>Plain objects\<close> has what the code's reads, writes and \<open>Object.entries\<close> do with
  them). The time read by \<open>Date.now()\<close> or \<open>new Date()\<close> during one call is the
  parameter \<open>now\<close> of the operation.
\<close>

record LearnedFact =
  fact_id :: string
  content :: string
  category :: string
  confidence :: real
  timestamp :: int
  source :: string
  verified :: bool

record MemoryEntry =
  fact :: LearnedFact
  lastAccessed :: int
  accessCount :: nat
  entry_verified :: bool
  entry_confidence :: real
  relatedFacts :: "string list"

datatype conflictType = contradiction | inconsistency | ambiguity | temporal

datatype severity = low | medium | high

datatype resolution = res_update | res_ignore | res_clarify | res_merge

record ConflictInfo =
  conflictId :: string
  newFact :: LearnedFact
  existingFact :: LearnedFact
  conflictType :: conflictType
  severity :: severity
  clarificationQuestion :: string
  suggestedResolution :: resolution

datatype userChoice = choice_new | choice_existing | choice_merge

record IntelligentMemoryBank =
  memory :: "(string \<times> MemoryEntry) list"
  categoryIndex :: "(string \<times> string list) list"
  timelineIndex :: "(int \<times> string list) list"

definition empty_bank :: IntelligentMemoryBank where
  "empty_bank = \<lparr>memory = [], categoryIndex = [], timelineIndex = []\<rparr>"

section \<open>Numbers in template strings\<close>

text \<open>The decimal numeral that a template string prints for an integer.\<close>

definition digit_char :: "nat \<Rightarrow> char" where
  "digit_char n = ''0123456789'' ! n"

function string_of_nat :: "nat \<Rightarrow> string" where
  "string_of_nat n =
     (if n < 10 then [digit_char n] else string_of_nat (n div 10) @ [digit_char (n mod 10)])"
  by pat_completeness auto
termination
  by (relation "measure (\<lambda>n. n)") auto

declare string_of_nat.simps [simp del]

definition string_of_int :: "int \<Rightarrow> string" where
  "string_of_int i = (if i < 0 then CHR ''-'' # string_of_nat (nat (- i)) else string_of_nat (nat i))"

section \<open>Strings\<close>

text \<open>
  A JavaScript string is a list of characters; the models cover the strings whose
  code units are below 256, a \<^typ>\<open>char\<close> being the code unit. \<open>toLowerCase\<close> maps
  the capital letters \<open>A\<close> to \<open>Z\<close> and the capital letters of the upper half, the
  code units \<open>0xC0\<close> to \<open>0xDE\<close> without the sign \<open>0xD7\<close>, to the small ones, which
  are 32 code units above, and leaves every other character as it is.
\<close>

definition capital_letters :: "char list" where
  "capital_letters =
     ''ABCDEFGHIJKLMNOPQRSTUVWXYZ'' @
     [CHR 0xC0, CHR 0xC1, CHR 0xC2, CHR 0xC3, CHR 0xC4, CHR 0xC5, CHR 0xC6,
     CHR 0xC7, CHR 0xC8, CHR 0xC9, CHR 0xCA, CHR 0xCB, CHR 0xCC, CHR 0xCD,
     CHR 0xCE, CHR 0xCF, CHR 0xD0, CHR 0xD1, CHR 0xD2, CHR 0xD3, CHR 0xD4,
     CHR 0xD5, CHR 0xD6, CHR 0xD8, CHR 0xD9, CHR 0xDA, CHR 0xDB, CHR 0xDC,
     CHR 0xDD, CHR 0xDE]"

definition small_letters :: "char list" where
  "small_letters =
     ''abcdefghijklmnopqrstuvwxyz'' @
     [CHR 0xE0, CHR 0xE1, CHR 0xE2, CHR 0xE3, CHR 0xE4, CHR 0xE5, CHR 0xE6,
     CHR 0xE7, CHR 0xE8, CHR 0xE9, CHR 0xEA, CHR 0xEB, CHR 0xEC, CHR 0xED,
     CHR 0xEE, CHR 0xEF, CHR 0xF0, CHR 0xF1, CHR 0xF2, CHR 0xF3, CHR 0xF4,
     CHR 0xF5, CHR 0xF6, CHR 0xF8, CHR 0xF9, CHR 0xFA, CHR 0xFB, CHR 0xFC,
     CHR 0xFD, CHR 0xFE]"

definition lower_char :: "char \<Rightarrow> char" where
  "lower_char c =
     (case map_of (zip capital_letters small_letters) c of
        None \<Rightarrow> c
      | Some l \<Rightarrow> l)"

definition toLowerCase :: "string \<Rightarrow> string" where
  "toLowerCase s = map lower_char s"

primrec startsWith :: "string \<Rightarrow> string \<Rightarrow> bool" where
  "startsWith s [] = True"
| "startsWith s (p # ps) = (case s of [] \<Rightarrow> False | c # cs \<Rightarrow> c = p \<and> startsWith cs ps)"

text \<open>\<open>s.includes(w)\<close>: \<open>w\<close> occurs in \<open>s\<close> as a substring.\<close>

primrec includes_str :: "string \<Rightarrow> string \<Rightarrow> bool" where
  "includes_str [] w = (w = [])"
| "includes_str (c # cs) w = (startsWith (c # cs) w \<or> includes_str cs w)"

text \<open>
  \<open>s.split(" ")\<close>: the pieces between the separators, empty pieces included; the result
  is never empty.
\<close>

primrec split_on :: "char \<Rightarrow> string \<Rightarrow> string list" where
  "split_on sep [] = [[]]"
| "split_on sep (c # cs) =
     (if c = sep then [] # split_on sep cs
      else (case split_on sep cs of [] \<Rightarrow> [[c]] | w # ws \<Rightarrow> (c # w) # ws))"

text \<open>\<open>s.replace(p, r)\<close> with a string pattern: the first occurrence of \<open>p\<close> becomes \<open>r\<close>.\<close>

primrec replace_first :: "string \<Rightarrow> string \<Rightarrow> string \<Rightarrow> string" where
  "replace_first p r [] = (if p = [] then r else [])"
| "replace_first p r (c # cs) =
     (if startsWith (c # cs) p then r @ drop (length p) (c # cs)
      else c # replace_first p r cs)"

text \<open>\<open>[...new Set(xs)]\<close>: the elements of \<open>xs\<close> in the order of their first occurrence.\<close>

primrec uniq_acc :: "'a list \<Rightarrow> 'a list \<Rightarrow> 'a list" where
  "uniq_acc acc [] = acc"
| "uniq_acc acc (x # xs) = uniq_acc (if x \<in> set acc then acc else acc @ [x]) xs"

definition uniq :: "'a list \<Rightarrow> 'a list" where
  "uniq xs = uniq_acc [] xs"

section \<open>Regular expressions\<close>

text \<open>
  The part of the regular expressions of JavaScript that the source uses. A matcher
  state is the text before the position, reversed, and the text from the position on.
  \<open>ms\<close> lists the states in which a match of the expression can end, in the order in
  which a backtracking matcher tries them: the left alternative first, the longest
  repetition first. An iteration of a star that consumes nothing is not taken. The first
  argument is the flag \<open>i\<close>.
\<close>

datatype regex =
    Eps
  | Chr char
  | AnyChar
  | Space
  | Digit
  | Range char char
  | NoneOf "char list"
  | WordBoundary
  | Bol
  | Eol
  | Seq regex regex
  | Alt regex regex
  | Star regex
  | Opt regex

type_synonym mstate = "string \<times> string"

definition is_space :: "char \<Rightarrow> bool" where
  "is_space c \<longleftrightarrow> c \<in> set [CHR '' '', CHR 0x09, CHR 0x0A, CHR 0x0B, CHR 0x0C, CHR 0x0D, CHR 0xA0]"

definition is_digit :: "char \<Rightarrow> bool" where
  "is_digit c \<longleftrightarrow> c \<in> set ''0123456789''"

definition is_word_char :: "char \<Rightarrow> bool" where
  "is_word_char c \<longleftrightarrow>
     c \<in> set ''abcdefghijklmnopqrstuvwxyzABCDEFGHIJKLMNOPQRSTUVWXYZ0123456789_''"

definition is_line_terminator :: "char \<Rightarrow> bool" where
  "is_line_terminator c \<longleftrightarrow> c \<in> set [CHR 0x0A, CHR 0x0D]"

definition in_range :: "bool \<Rightarrow> char \<Rightarrow> char \<Rightarrow> char \<Rightarrow> bool" where
  "in_range ic lo hi c \<longleftrightarrow>
     (of_char lo \<le> (of_char c :: nat) \<and> (of_char c :: nat) \<le> of_char hi) \<or>
     (ic \<and> list_ex (\<lambda>d. lower_char d = lower_char c \<and>
                        of_char lo \<le> (of_char d :: nat) \<and> (of_char d :: nat) \<le> of_char hi)
                   (''abcdefghijklmnopqrstuvwxyz'' @ ''ABCDEFGHIJKLMNOPQRSTUVWXYZ''))"

definition word_before :: "mstate \<Rightarrow> bool" where
  "word_before s = (case fst s of [] \<Rightarrow> False | c # _ \<Rightarrow> is_word_char c)"

definition word_after :: "mstate \<Rightarrow> bool" where
  "word_after s = (case snd s of [] \<Rightarrow> False | c # _ \<Rightarrow> is_word_char c)"

definition step_char :: "(char \<Rightarrow> bool) \<Rightarrow> mstate \<Rightarrow> mstate list" where
  "step_char P s =
     (case snd s of [] \<Rightarrow> [] | c # cs \<Rightarrow> if P c then [(c # fst s, cs)] else [])"

function ms :: "bool \<Rightarrow> regex \<Rightarrow> mstate \<Rightarrow> mstate list" where
  "ms ic Eps s = [s]"
| "ms ic (Chr a) s = step_char (\<lambda>c. if ic then lower_char c = lower_char a else c = a) s"
| "ms ic AnyChar s = step_char (\<lambda>c. \<not> is_line_terminator c) s"
| "ms ic Space s = step_char is_space s"
| "ms ic Digit s = step_char is_digit s"
| "ms ic (Range lo hi) s = step_char (in_range ic lo hi) s"
| "ms ic (NoneOf cs) s = step_char (\<lambda>c. c \<notin> set cs) s"
| "ms ic WordBoundary s = (if word_before s \<noteq> word_after s then [s] else [])"
| "ms ic Bol s = (if fst s = [] then [s] else [])"
| "ms ic Eol s = (if snd s = [] then [s] else [])"
| "ms ic (Seq r1 r2) s = concat (map (\<lambda>s'. ms ic r2 s') (ms ic r1 s))"
| "ms ic (Alt r1 r2) s = ms ic r1 s @ ms ic r2 s"
| "ms ic (Star r) s =
     concat (map (\<lambda>s'. if length (snd s') < length (snd s) then ms ic (Star r) s' else [])
                 (ms ic r s)) @ [s]"
| "ms ic (Opt r) s = ms ic r s @ [s]"
  by pat_completeness auto
termination
  by (relation "measures [\<lambda>(ic, r, s). size r, \<lambda>(ic, r, s). length (snd s)]") auto

declare ms.simps [simp del]

text \<open>
  \<open>text.match(re)\<close> for an expression without the flag \<open>g\<close>: the match at the leftmost
  position where there is one; the result is the matched text \<open>match[0]\<close>.
  \<open>re.test(text)\<close> says whether there is a match.
\<close>

primrec search :: "bool \<Rightarrow> regex \<Rightarrow> string \<Rightarrow> string \<Rightarrow> string option" where
  "search ic r pre [] =
     (case ms ic r (pre, []) of [] \<Rightarrow> None | s' # _ \<Rightarrow> Some [])"
| "search ic r pre (c # cs) =
     (case ms ic r (pre, c # cs) of
        [] \<Rightarrow> search ic r (c # pre) cs
      | s' # _ \<Rightarrow> Some (take (length (c # cs) - length (snd s')) (c # cs)))"

definition match0 :: "bool \<Rightarrow> regex \<Rightarrow> string \<Rightarrow> string option" where
  "match0 ic r s = search ic r [] s"

definition test :: "bool \<Rightarrow> regex \<Rightarrow> string \<Rightarrow> bool" where
  "test ic r s \<longleftrightarrow> match0 ic r s \<noteq> None"

text \<open>Writing expressions: a literal text, a choice between several, one or more.\<close>

definition lit :: "string \<Rightarrow> regex" where
  "lit w = foldr (\<lambda>c r. Seq (Chr c) r) w Eps"

primrec alts :: "regex list \<Rightarrow> regex" where
  "alts [] = NoneOf []"
| "alts (r # rs) = (if rs = [] then r else Alt r (alts rs))"

definition words :: "string list \<Rightarrow> regex" where
  "words ws = alts (map lit ws)"

definition Plus :: "regex \<Rightarrow> regex" where
  "Plus r = Seq r (Star r)"

section \<open>Plain objects\<close>

text \<open>
  The code uses plain objects, made by \<open>{}\<close> or by \<open>JSON.parse\<close>, as dictionaries.
  Three things make such an object differ from a dictionary, and the models of the
  operations that read, write or list one follow them.
  \<^item> A read \<open>obj[k]\<close> of a key that is no own property gives, for the names that every
    object inherits, the inherited value, which counts as true in a test.
  \<^item> A write \<open>obj[k] = s\<close> of a string under the key \<open>__proto__\<close> goes to the inherited
    setter, which ignores a value that is no object: no property is made.
  \<^item> \<open>Object.entries(obj)\<close> lists first the keys that are array indices (the decimal
    numerals of the numbers up to \<open>2^32 - 2\<close>, without leading zeros) by ascending
    number, then the other keys in the order of their creation.
\<close>

definition object_prototype_names :: "string list" where
  "object_prototype_names =
     [''constructor'', ''__defineGetter__'', ''__defineSetter__'', ''hasOwnProperty'',
      ''__lookupGetter__'', ''__lookupSetter__'', ''isPrototypeOf'', ''propertyIsEnumerable'',
      ''toString'', ''valueOf'', ''__proto__'', ''toLocaleString'']"

definition object_set :: "string \<Rightarrow> string \<Rightarrow> (string \<times> string) list \<Rightarrow> (string \<times> string) list" where
  "object_set k v obj = (if k = ''__proto__'' then obj else AList.update k v obj)"

definition digit_value :: "char \<Rightarrow> nat" where
  "digit_value c =
     (case map_of [(CHR ''0'', 0), (CHR ''1'', 1), (CHR ''2'', 2), (CHR ''3'', 3), (CHR ''4'', 4),
                   (CHR ''5'', 5), (CHR ''6'', 6), (CHR ''7'', 7), (CHR ''8'', 8), (CHR ''9'', 9)] c of
        None \<Rightarrow> 0
      | Some d \<Rightarrow> d)"

definition index_value :: "string \<Rightarrow> nat" where
  "index_value k = foldl (\<lambda>n c. 10 * n + digit_value c) 0 k"

definition is_array_index :: "string \<Rightarrow> bool" where
  "is_array_index k =
     (case k of
        [] \<Rightarrow> False
      | c # cs \<Rightarrow>
          (if list_all is_digit (c # cs) \<and> (c \<noteq> CHR ''0'' \<or> cs = [])
           then index_value (c # cs) \<le> 4294967294
           else False))"

definition object_entries :: "(string \<times> 'v) list \<Rightarrow> (string \<times> 'v) list" where
  "object_entries obj =
     sort_key (\<lambda>kv. index_value (fst kv)) (filter (\<lambda>kv. is_array_index (fst kv)) obj) @
     filter (\<lambda>kv. \<not> is_array_index (fst kv)) obj"

section \<open>Memory Bank\<close>

text \<open>\<open>Set.add\<close>: no effect when the element is there, else appended.\<close>

definition set_add :: "'a \<Rightarrow> 'a list \<Rightarrow> 'a list" where
  "set_add x xs = (if x \<in> set xs then xs else xs @ [x])"

text \<open>
  \<open>Date.toDateString()\<close> names the calendar day of a timestamp in the time zone of the
  process. The model is that of a process whose time zone is UTC, and a day is
  represented by its number since the epoch.
\<close>

definition toDateString :: "int \<Rightarrow> int" where
  "toDateString t = t div 86400000"

text \<open>The bucket of a key, created empty when it is missing, with one more id.\<close>

definition index_add :: "'k \<Rightarrow> string \<Rightarrow> ('k \<times> string list) list \<Rightarrow> ('k \<times> string list) list" where
  "index_add k i ix =
     AList.update k (set_add i (case map_of ix k of None \<Rightarrow> [] | Some s \<Rightarrow> s)) ix"

definition updateIndexes :: "LearnedFact \<Rightarrow> IntelligentMemoryBank \<Rightarrow> IntelligentMemoryBank" where
  "updateIndexes f b =
     b\<lparr>categoryIndex := index_add (category f) (fact_id f) (categoryIndex b),
       timelineIndex := index_add (toDateString (timestamp f)) (fact_id f) (timelineIndex b)\<rparr>"

definition storeFact :: "int \<Rightarrow> LearnedFact \<Rightarrow> string list \<Rightarrow> IntelligentMemoryBank \<Rightarrow> IntelligentMemoryBank" where
  "storeFact now f relatedFactIds b =
     (let entry = \<lparr>fact = f, lastAccessed = now, accessCount = 0,
                    entry_verified = verified f, entry_confidence = confidence f,
                    relatedFacts = relatedFactIds\<rparr>
      in updateIndexes f (b\<lparr>memory := AList.update (fact_id f) entry (memory b)\<rparr>))"

definition updateFactConfidence :: "int \<Rightarrow> string \<Rightarrow> real \<Rightarrow> bool \<Rightarrow> IntelligentMemoryBank \<Rightarrow> IntelligentMemoryBank" where
  "updateFactConfidence now factId newConfidence ver b =
     (case map_of (memory b) factId of
        None \<Rightarrow> b
      | Some entry \<Rightarrow>
          b\<lparr>memory := AList.update factId
                (entry\<lparr>entry_confidence := max 0 (min 1 newConfidence),
                       entry_verified := ver, lastAccessed := now\<rparr>) (memory b)\<rparr>)"

text \<open>The bucket of a key without one id; a bucket left empty is dropped.\<close>

definition index_remove :: "'k \<Rightarrow> string \<Rightarrow> ('k \<times> string list) list \<Rightarrow> ('k \<times> string list) list" where
  "index_remove k i ix =
     (case map_of ix k of
        None \<Rightarrow> ix
      | Some s \<Rightarrow>
          (let s' = removeAll i s
           in if s' = [] then AList.delete k ix else AList.update k s' ix))"

definition deleteFact :: "string \<Rightarrow> IntelligentMemoryBank \<Rightarrow> IntelligentMemoryBank" where
  "deleteFact factId b =
     (case map_of (memory b) factId of
        None \<Rightarrow> b
      | Some entry \<Rightarrow>
          b\<lparr>memory := AList.delete factId (memory b),
            categoryIndex := index_remove (category (fact entry)) factId (categoryIndex b),
            timelineIndex :=
              index_remove (toDateString (timestamp (fact entry))) factId (timelineIndex b)\<rparr>)"

text \<open>
  \<open>cleanup\<close>: the age limit \<open>maxAge\<close> is a whole number of days; \<open>shouldDelete\<close> is the
  condition of the source's first loop.
\<close>

definition shouldDelete :: "real \<Rightarrow> int \<Rightarrow> MemoryEntry \<Rightarrow> bool" where
  "shouldDelete minConfidence cutoffDate entry \<longleftrightarrow>
     entry_confidence entry < minConfidence \<and>
     timestamp (fact entry) < cutoffDate \<and>
     accessCount entry = 0"

definition cleanup :: "int \<Rightarrow> real \<Rightarrow> int \<Rightarrow> IntelligentMemoryBank \<Rightarrow> IntelligentMemoryBank" where
  "cleanup now minConfidence maxAge b =
     (let cutoffDate = now - maxAge * 24 * 60 * 60 * 1000;
          toDelete = map fst (filter (\<lambda>(factId, entry). shouldDelete minConfidence cutoffDate entry)
                                     (memory b))
      in foldl (\<lambda>b' factId. deleteFact factId b') b toDelete)"

text \<open>
  \<open>resolveConflict\<close>. The assignment \<open>conflictInfo.newFact.confidence = 0.2\<close> of the
  choice \<open>existing\<close> changes the fact that is stored next under its own id, so the
  stored entry is the only place where the change is seen. The confidence of the merged
  fact is the mean over the reals; the code computes it in double precision and so may
  differ from it in the last place.
\<close>

definition mergedFact :: "int \<Rightarrow> ConflictInfo \<Rightarrow> LearnedFact" where
  "mergedFact now ci =
     \<lparr>fact_id = ''merged_'' @ string_of_int now,
      content = content (existingFact ci) @ ''; '' @ content (newFact ci),
      category = category (newFact ci),
      confidence = (confidence (existingFact ci) + confidence (newFact ci)) / 2,
      timestamp = now,
      source = ''Merged: '' @ source (newFact ci),
      verified = True\<rparr>"

fun resolveConflict :: "int \<Rightarrow> ConflictInfo \<Rightarrow> userChoice \<Rightarrow> IntelligentMemoryBank \<Rightarrow> IntelligentMemoryBank" where
  "resolveConflict now ci choice_new b =
     storeFact now (newFact ci) [fact_id (existingFact ci)]
       (updateFactConfidence now (fact_id (existingFact ci)) 0.3 False b)"
| "resolveConflict now ci choice_existing b =
     storeFact now ((newFact ci)\<lparr>confidence := 0.2\<rparr>) [fact_id (existingFact ci)]
       (updateFactConfidence now (fact_id (existingFact ci))
          (min 1.0 (confidence (existingFact ci) + 0.2)) True b)"
| "resolveConflict now ci choice_merge b =
     storeFact now (mergedFact now ci) [fact_id (existingFact ci), fact_id (newFact ci)] b"

text \<open>
  \<open>exportKnowledge\<close> builds the nested object category \<open>\<rightarrow>\<close> id \<open>\<rightarrow>\<close> content, one
  entry of the memory after the other. In the round of an entry, the test
  \<open>!exported[category]\<close> finds the object of a category that is an own property, finds
  an inherited value for a category that names one, and makes an empty object otherwise;
  then \<open>exported[category][id] = content\<close> writes the content into the own object of the
  category, unless the id is \<open>__proto__\<close>. For a category that names an inherited
  property the write goes to the inherited value instead, which is no part of the
  snapshot: the snapshot stays as it is. That inherited value is an object shared by the
  whole program, and what the write does to it is not followed here; the properties of
  the export below are stated for banks without such a category, or at concrete banks.
  \<open>importKnowledge\<close> stores one fact for every id of every category of such an object,
  in the order of \<open>Object.entries\<close>.
\<close>

definition export_entry :: "(string \<times> (string \<times> string) list) list \<Rightarrow> string \<times> MemoryEntry
    \<Rightarrow> (string \<times> (string \<times> string) list) list" where
  "export_entry exported ke =
     (let entry = snd ke;
          cat = category (fact entry)
      in case map_of exported cat of
           Some inner \<Rightarrow>
             AList.update cat (object_set (fact_id (fact entry)) (content (fact entry)) inner)
               exported
         | None \<Rightarrow>
             if cat \<in> set object_prototype_names then exported
             else AList.update cat (object_set (fact_id (fact entry)) (content (fact entry)) [])
                    exported)"

definition exportKnowledge :: "IntelligentMemoryBank \<Rightarrow> (string \<times> (string \<times> string) list) list" where
  "exportKnowledge b = foldl export_entry [] (memory b)"

definition importedFact :: "int \<Rightarrow> string \<Rightarrow> string \<Rightarrow> string \<Rightarrow> LearnedFact" where
  "importedFact now cat key c =
     \<lparr>fact_id = key, content = c, category = cat, confidence = 0.8, timestamp = now,
      source = ''imported knowledge'', verified = True\<rparr>"

definition importKnowledge :: "int \<Rightarrow> (string \<times> (string \<times> string) list) list
    \<Rightarrow> IntelligentMemoryBank \<Rightarrow> IntelligentMemoryBank" where
  "importKnowledge now knowledge b =
     foldl (\<lambda>b' (cat, facts).
              foldl (\<lambda>b'' (key, c). storeFact now (importedFact now cat key c) [] b'') b'
                (object_entries facts))
           b (object_entries knowledge)"

text \<open>
  The triples (category, id, content) of the stored facts, and the invariant of the
  memory: a \<open>Map\<close> has every key once, and every entry is stored under its fact's id.
\<close>

definition keys_ok :: "IntelligentMemoryBank \<Rightarrow> bool" where
  "keys_ok b \<longleftrightarrow> distinct (map fst (memory b)) \<and> list_all (\<lambda>(k, e). fact_id (fact e) = k) (memory b)"

definition triple_of :: "MemoryEntry \<Rightarrow> string \<times> string \<times> string" where
  "triple_of e = (category (fact e), fact_id (fact e), content (fact e))"

definition triples :: "IntelligentMemoryBank \<Rightarrow> (string \<times> string \<times> string) set" where
  "triples b = triple_of ` snd ` set (memory b)"

definition lookup2 :: "(string \<times> (string \<times> string) list) list \<Rightarrow> string \<Rightarrow> string \<Rightarrow> string option" where
  "lookup2 kn cat k = (case map_of kn cat of None \<Rightarrow> None | Some m \<Rightarrow> map_of m k)"

definition flat :: "(string \<times> (string \<times> string) list) list \<Rightarrow> (string \<times> string \<times> string) list" where
  "flat kn = concat (map (\<lambda>(cat, facts). map (\<lambda>(key, c). (cat, key, c)) facts) kn)"

definition obj_ok :: "(string \<times> (string \<times> string) list) list \<Rightarrow> bool" where
  "obj_ok kn \<longleftrightarrow> distinct (map fst kn) \<and> list_all (\<lambda>(cat, m). distinct (map fst m)) kn"

definition store_triple :: "int \<Rightarrow> IntelligentMemoryBank \<Rightarrow> string \<times> string \<times> string \<Rightarrow> IntelligentMemoryBank" where
  "store_triple now b t = storeFact now (importedFact now (fst t) (fst (snd t)) (snd (snd t))) [] b"

definition imported_entry :: "int \<Rightarrow> string \<times> string \<times> string \<Rightarrow> MemoryEntry" where
  "imported_entry now t =
     \<lparr>fact = importedFact now (fst t) (fst (snd t)) (snd (snd t)), lastAccessed = now,
      accessCount = 0, entry_verified = True, entry_confidence = 0.8, relatedFacts = []\<rparr>"

text \<open>
  A triple that a plain object can hold: \<open>exported[category][id] = content\<close> keeps it
  when the id is not \<open>__proto__\<close> and the category is not a name that every object
  inherits. A snapshot that \<open>exportKnowledge\<close> can return has every key once and no
  inherited name as a category. \<open>flat_entries\<close> lists the triples of a snapshot in the
  order in which \<open>importKnowledge\<close> visits them.
\<close>

definition ordinary_triple :: "string \<times> string \<times> string \<Rightarrow> bool" where
  "ordinary_triple t \<longleftrightarrow> fst (snd t) \<noteq> ''__proto__'' \<and> fst t \<notin> set object_prototype_names"

definition snapshot_ok :: "(string \<times> (string \<times> string) list) list \<Rightarrow> bool" where
  "snapshot_ok ex \<longleftrightarrow> obj_ok ex \<and> list_all (\<lambda>cat. map_of ex cat = None) object_prototype_names"

definition flat_entries :: "(string \<times> (string \<times> string) list) list \<Rightarrow> (string \<times> string \<times> string) list" where
  "flat_entries kn =
     concat (map (\<lambda>(cat, facts). map (\<lambda>(key, c). (cat, key, c)) (object_entries facts))
                 (object_entries kn))"

section \<open>Fact Extractor\<close>

record FactExtractionResult =
  facts :: "LearnedFact list"
  result_confidence :: real
  needsVerification :: "LearnedFact list"

text \<open>
  \<open>generateFactId\<close> increments the counter of the learner and names the fact after the
  time and the new count; the operations of the learner take the counter and return it.
\<close>

definition generateFactId :: "int \<Rightarrow> nat \<Rightarrow> string \<times> nat" where
  "generateFactId now factCounter =
     (''fact_'' @ string_of_int now @ ''_'' @ string_of_nat (Suc factCounter), Suc factCounter)"

text \<open>The four patterns of \<open>fallbackFactExtraction\<close>, each with its category and template.\<close>

definition date_pattern :: regex where
  "date_pattern =
     Seq (lit ''going'') (Seq (Star AnyChar) (Seq (words [''date'', ''dinner'', ''out''])
       (Seq (Star AnyChar) (words [''vahant'', ''with him'']))))"

definition outfit_pattern :: regex where
  "outfit_pattern =
     Seq (lit ''wearing'') (Seq (Star AnyChar) (words [''dress'', ''outfit'', ''clothes'']))"

definition emotion_pattern :: regex where
  "emotion_pattern =
     Seq (lit ''feel'') (Seq (Opt (lit ''ing'')) (Seq (Plus Space)
       (words [''sad'', ''happy'', ''excited'', ''nervous'', ''angry''])))"

definition place_pattern :: regex where
  "place_pattern =
     Seq (lit ''going'') (Seq (Plus Space) (Seq (lit ''to'') (Seq (Plus Space)
       (Plus (NoneOf ''.!?'')))))"

definition date_template :: "string \<Rightarrow> string" where
  "date_template m = ''Plans to go on date with Vahant''"

definition outfit_template :: "string \<Rightarrow> string" where
  "outfit_template m = ''Outfit choice: '' @ m"

definition emotion_template :: "string \<Rightarrow> string" where
  "emotion_template m =
     ''Current emotion: '' @
       (case rev (split_on CHR '' '' m) of [] \<Rightarrow> ''undefined'' | w # _ \<Rightarrow> w)"

definition place_template :: "string \<Rightarrow> string" where
  "place_template m = ''Plans to visit: '' @ replace_first ''going to '' [] m"

definition patterns :: "(regex \<times> string \<times> (string \<Rightarrow> string)) list" where
  "patterns =
     [(date_pattern, ''plans'', date_template),
      (outfit_pattern, ''preferences'', outfit_template),
      (emotion_pattern, ''emotions'', emotion_template),
      (place_pattern, ''plans'', place_template)]"

text \<open>One round of the \<open>forEach\<close> over the patterns: a match adds one fact.\<close>

definition try_pattern :: "int \<Rightarrow> string \<Rightarrow> LearnedFact list \<times> nat
    \<Rightarrow> regex \<times> string \<times> (string \<Rightarrow> string) \<Rightarrow> LearnedFact list \<times> nat" where
  "try_pattern now message acc p =
     (case match0 True (fst p) message of
        None \<Rightarrow> acc
      | Some m \<Rightarrow>
          (let (i, n) = generateFactId now (snd acc)
           in (fst acc @ [\<lparr>fact_id = i, content = (snd (snd p)) m, category = fst (snd p),
                            confidence = 0.7, timestamp = now, source = message,
                            verified = True\<rparr>], n)))"

definition fallbackFactExtraction :: "int \<Rightarrow> nat \<Rightarrow> string \<Rightarrow> FactExtractionResult \<times> nat" where
  "fallbackFactExtraction now factCounter message =
     (let (fs, n) = foldl (try_pattern now message) ([], factCounter) patterns
      in (\<lparr>facts = fs, result_confidence = (if fs \<noteq> [] then 0.7 else 0),
           needsVerification = []\<rparr>, n))"

text \<open>
  The reply of the language model after \<open>response.match(/\{[\s\S]*\}/)\<close> and
  \<open>JSON.parse\<close>: no object in the text, text that does not parse, or an object whose
  field \<open>facts\<close> is an array or is something else. An element of the array is a fact
  description or \<open>null\<close>, here \<open>None\<close>; reading the confidence of \<open>null\<close> raises an
  error, which the \<open>catch\<close> of \<open>parseFactExtractionResponse\<close> answers with the fallback,
  the counter staying where the loop left it. An element without a number as
  confidence is passed over like one with confidence 0.
\<close>

record factData =
  fd_content :: string
  fd_category :: string
  fd_confidence :: real
  fd_needsVerification :: bool

datatype parsed_response = NoJsonMatch | ParseError | Parsed "factData option list option"

definition parse_fact :: "int \<Rightarrow> string \<Rightarrow> (LearnedFact list \<times> LearnedFact list) \<times> nat
    \<Rightarrow> factData \<Rightarrow> (LearnedFact list \<times> LearnedFact list) \<times> nat" where
  "parse_fact now originalMessage acc fd =
     (if fd_confidence fd \<ge> 0.5 then
        (let (i, n) = generateFactId now (snd acc);
             f = \<lparr>fact_id = i, content = fd_content fd, category = fd_category fd,
                  confidence = fd_confidence fd, timestamp = now, source = originalMessage,
                  verified = (\<not> fd_needsVerification fd)\<rparr>
         in ((fst (fst acc) @ [f],
              (if fd_needsVerification fd then snd (fst acc) @ [f] else snd (fst acc))), n))
      else acc)"

primrec parse_facts :: "int \<Rightarrow> string \<Rightarrow> factData option list
    \<Rightarrow> (LearnedFact list \<times> LearnedFact list) \<times> nat
    \<Rightarrow> nat + (LearnedFact list \<times> LearnedFact list) \<times> nat" where
  "parse_facts now originalMessage [] acc = Inr acc"
| "parse_facts now originalMessage (x # xs) acc =
     (case x of
        None \<Rightarrow> Inl (snd acc)
      | Some fd \<Rightarrow> parse_facts now originalMessage xs (parse_fact now originalMessage acc fd))"

definition parseFactExtractionResponse :: "int \<Rightarrow> nat \<Rightarrow> parsed_response \<Rightarrow> string
    \<Rightarrow> FactExtractionResult \<times> nat" where
  "parseFactExtractionResponse now factCounter response originalMessage =
     (case response of
        NoJsonMatch \<Rightarrow> fallbackFactExtraction now factCounter originalMessage
      | ParseError \<Rightarrow> fallbackFactExtraction now factCounter originalMessage
      | Parsed None \<Rightarrow>
          (\<lparr>facts = [], result_confidence = 0, needsVerification = []\<rparr>, factCounter)
      | Parsed (Some fds) \<Rightarrow>
          (case parse_facts now originalMessage fds (([], []), factCounter) of
             Inl n \<Rightarrow> fallbackFactExtraction now n originalMessage
           | Inr ((fs, nv), n) \<Rightarrow>
               (\<lparr>facts = fs,
                 result_confidence =
                   (case fs of [] \<Rightarrow> 0 | f # fs' \<Rightarrow> foldl max (confidence f) (map confidence fs')),
                 needsVerification = nv\<rparr>, n)))"

text \<open>
  \<open>isSimpleMessage\<close> tests the trimmed message; \<open>extractFacts\<close> gets the outcome of the
  call of the model as an argument, \<open>None\<close> when the call fails.
\<close>

definition trim :: "string \<Rightarrow> string" where
  "trim s = rev (dropWhile is_space (rev (dropWhile is_space s)))"

definition simplePatterns :: "regex list" where
  "simplePatterns =
     [Seq Bol (Seq (words [''hi'', ''hello'', ''hey'', ''yes'', ''no'', ''ok'', ''okay'',
                           ''thanks'', ''bye'']) Eol),
      Seq Bol (Seq (Range CHR ''a'' CHR ''z'') (Seq (Opt (Range CHR ''a'' CHR ''z''))
                (Seq (Opt (Range CHR ''a'' CHR ''z'')) Eol))),
      Seq Bol (Seq (words [''lol'', ''haha'', ''omg'', ''wow'']) Eol)]"

definition isSimpleMessage :: "string \<Rightarrow> bool" where
  "isSimpleMessage message = list_ex (\<lambda>pattern. test True pattern (trim message)) simplePatterns"

definition extractFacts :: "int \<Rightarrow> nat \<Rightarrow> parsed_response option \<Rightarrow> string
    \<Rightarrow> FactExtractionResult \<times> nat" where
  "extractFacts now factCounter model_reply message =
     (if isSimpleMessage message then
        (\<lparr>facts = [], result_confidence = 1.0, needsVerification = []\<rparr>, factCounter)
      else (case model_reply of
              None \<Rightarrow> fallbackFactExtraction now factCounter message
            | Some response \<Rightarrow> parseFactExtractionResponse now factCounter response message))"

section \<open>Conflict Resolver\<close>

record ConflictResolutionResult =
  conflicts :: "ConflictInfo list"
  hasConflicts :: bool
  needsImmediateAttention :: "ConflictInfo list"
  autoResolvable :: "ConflictInfo list"

definition generateConflictId :: "int \<Rightarrow> nat \<Rightarrow> string \<times> nat" where
  "generateConflictId now conflictCounter =
     (''conflict_'' @ string_of_int now @ ''_'' @ string_of_nat (Suc conflictCounter),
      Suc conflictCounter)"

text \<open>\<open>ws.some((word) => s.includes(word))\<close>\<close>

definition some_included :: "string list \<Rightarrow> string \<Rightarrow> bool" where
  "some_included ws s = list_ex (\<lambda>word. includes_str s word) ws"

definition findCommonTerms :: "string \<Rightarrow> string \<Rightarrow> string list" where
  "findCommonTerms text1 text2 =
     (let words1 = filter (\<lambda>w. length w > 3) (split_on CHR '' '' text1);
          words2 = filter (\<lambda>w. length w > 3) (split_on CHR '' '' text2)
      in filter (\<lambda>word. word \<in> set words2) words1)"

definition timePatterns :: "regex list" where
  "timePatterns =
     [Seq WordBoundary (Seq (words [''today'', ''tomorrow'', ''tonight'', ''this evening''])
        WordBoundary),
      Seq WordBoundary (Seq (words [''monday'', ''tuesday'', ''wednesday'', ''thursday'',
        ''friday'', ''saturday'', ''sunday'']) WordBoundary),
      Seq WordBoundary (Seq Digit (Seq (Opt Digit) (Seq (words [''st'', ''nd'', ''rd'', ''th''])
        WordBoundary))),
      Seq WordBoundary (Seq (words [''next week'', ''this week'', ''next month''])
        WordBoundary)]"

primrec first_time_match :: "regex list \<Rightarrow> string \<Rightarrow> string option" where
  "first_time_match [] s = None"
| "first_time_match (pattern # rest) s =
     (case match0 True pattern s of
        Some m \<Rightarrow> Some (toLowerCase m)
      | None \<Rightarrow> first_time_match rest s)"

definition extractTimeReference :: "string \<Rightarrow> string option" where
  "extractTimeReference s = first_time_match timePatterns s"

definition calculateContentSimilarity :: "string \<Rightarrow> string \<Rightarrow> real" where
  "calculateContentSimilarity text1 text2 =
     (let words1 = uniq (split_on CHR '' '' (toLowerCase text1));
          words2 = uniq (split_on CHR '' '' (toLowerCase text2));
          intersection = uniq (filter (\<lambda>word. word \<in> set words2) words1);
          union = uniq (words1 @ words2)
      in real (length intersection) / real (length union))"

text \<open>
  The detectors. Each gets the conflict id that \<open>generateConflictId\<close> would give, and
  returns the conflict it finds or \<open>None\<close> for \<open>null\<close>.
\<close>

definition emotionConflicts :: "(string list \<times> string list) list" where
  "emotionConflicts =
     [([''happy'', ''excited'', ''joy''], [''sad'', ''angry'', ''depressed'']),
      ([''love'', ''like''], [''hate'', ''dislike'']),
      ([''calm'', ''relaxed''], [''nervous'', ''anxious'', ''stressed''])]"

primrec emotion_contradiction :: "string \<Rightarrow> LearnedFact \<Rightarrow> LearnedFact \<Rightarrow> string \<Rightarrow> string
    \<Rightarrow> (string list \<times> string list) list \<Rightarrow> ConflictInfo option" where
  "emotion_contradiction cid nf ef newContent existingContent [] = None"
| "emotion_contradiction cid nf ef newContent existingContent (pn # rest) =
     (let newIsPositive = some_included (fst pn) newContent;
          newIsNegative = some_included (snd pn) newContent;
          existingIsPositive = some_included (fst pn) existingContent;
          existingIsNegative = some_included (snd pn) existingContent
      in if (newIsPositive \<and> existingIsNegative) \<or> (newIsNegative \<and> existingIsPositive)
         then Some \<lparr>conflictId = cid, newFact = nf, existingFact = ef,
                     conflictType = contradiction, severity = high,
                     clarificationQuestion =
                       ''I noticed you mentioned feeling '' @
                       (if newIsPositive then ''positive'' else ''negative'') @
                       '' now, but earlier you seemed '' @
                       (if existingIsPositive then ''positive'' else ''negative'') @
                       ''. How are you actually feeling right now?'',
                     suggestedResolution = res_clarify\<rparr>
         else emotion_contradiction cid nf ef newContent existingContent rest)"

definition relationship_contradiction :: "string \<Rightarrow> LearnedFact \<Rightarrow> LearnedFact \<Rightarrow> string \<Rightarrow> string
    \<Rightarrow> ConflictInfo option" where
  "relationship_contradiction cid nf ef newContent existingContent =
     (if includes_str newContent ''single'' \<and> includes_str existingContent ''vahant''
      then Some \<lparr>conflictId = cid, newFact = nf, existingFact = ef,
                  conflictType = contradiction, severity = high,
                  clarificationQuestion =
                    ''Wait bestie, are you single or are you with Vahant? I'm getting mixed signals here!'',
                  suggestedResolution = res_clarify\<rparr>
      else None)"

definition likeWords :: "string list" where
  "likeWords = [''like'', ''love'', ''enjoy'', ''prefer'']"

definition dislikeWords :: "string list" where
  "dislikeWords = [''hate'', ''dislike'', ''don't like'', ''avoid'']"

definition preference_contradiction :: "string \<Rightarrow> LearnedFact \<Rightarrow> LearnedFact \<Rightarrow> string \<Rightarrow> string
    \<Rightarrow> ConflictInfo option" where
  "preference_contradiction cid nf ef newContent existingContent =
     (let newLikes = some_included likeWords newContent;
          newDislikes = some_included dislikeWords newContent;
          existingLikes = some_included likeWords existingContent;
          existingDislikes = some_included dislikeWords existingContent
      in if (newLikes \<and> existingDislikes) \<or> (newDislikes \<and> existingLikes)
         then (case findCommonTerms newContent existingContent of
                 [] \<Rightarrow> None
               | term0 # _ \<Rightarrow>
                   Some \<lparr>conflictId = cid, newFact = nf, existingFact = ef,
                         conflictType = contradiction, severity = medium,
                         clarificationQuestion =
                           ''I'm confused - do you like or dislike '' @ term0 @
                           ''? You've mentioned both!'',
                         suggestedResolution = res_clarify\<rparr>)
         else None)"

definition checkContradiction :: "string \<Rightarrow> LearnedFact \<Rightarrow> LearnedFact \<Rightarrow> ConflictInfo option" where
  "checkContradiction cid nf ef =
     (let newContent = toLowerCase (content nf);
          existingContent = toLowerCase (content ef)
      in case (if category nf = ''emotions''
               then emotion_contradiction cid nf ef newContent existingContent emotionConflicts
               else None) of
           Some c \<Rightarrow> Some c
         | None \<Rightarrow>
             (case (if category nf = ''relationship''
                    then relationship_contradiction cid nf ef newContent existingContent
                    else None) of
                Some c \<Rightarrow> Some c
              | None \<Rightarrow>
                  (if category nf = ''preferences''
                   then preference_contradiction cid nf ef newContent existingContent
                   else None)))"

definition checkTemporalConflict :: "string \<Rightarrow> LearnedFact \<Rightarrow> LearnedFact \<Rightarrow> ConflictInfo option" where
  "checkTemporalConflict cid nf ef =
     (if category nf = ''plans'' then
        (let newContent = toLowerCase (content nf);
             existingContent = toLowerCase (content ef)
         in if includes_str newContent ''date'' \<and> includes_str existingContent ''date'' then
              (case extractTimeReference newContent of
                 None \<Rightarrow> None
               | Some newTime \<Rightarrow>
                   (case extractTimeReference existingContent of
                      None \<Rightarrow> None
                    | Some existingTime \<Rightarrow>
                        if newTime \<noteq> [] \<and> existingTime \<noteq> [] \<and> newTime \<noteq> existingTime
                        then Some \<lparr>conflictId = cid, newFact = nf, existingFact = ef,
                                    conflictType = temporal, severity = medium,
                                    clarificationQuestion =
                                      ''I heard about a date '' @ newTime @
                                      '', but earlier you mentioned '' @ existingTime @
                                      ''. Which date is happening?'',
                                    suggestedResolution = res_clarify\<rparr>
                        else None))
            else None)
      else None)"

definition checkInconsistency :: "string \<Rightarrow> LearnedFact \<Rightarrow> LearnedFact \<Rightarrow> ConflictInfo option" where
  "checkInconsistency cid nf ef =
     (if confidence nf < 0.6 \<and> confidence ef > 0.8 then
        (let similarity = calculateContentSimilarity (content nf) (content ef)
         in if similarity > 0.3 \<and> similarity < 0.8
            then Some \<lparr>conflictId = cid, newFact = nf, existingFact = ef,
                        conflictType = inconsistency, severity = low,
                        clarificationQuestion =
                          ''I want to make sure I understand correctly - you mentioned something similar before. Can you clarify?'',
                        suggestedResolution = res_merge\<rparr>
            else None)
      else None)"

definition checkAmbiguity :: "string \<Rightarrow> LearnedFact \<Rightarrow> LearnedFact \<Rightarrow> ConflictInfo option" where
  "checkAmbiguity cid nf ef =
     (if category nf = category ef \<and> \<not> verified nf then
        (let similarity = calculateContentSimilarity (content nf) (content ef)
         in if similarity > 0.5 \<and> similarity < 0.9
            then Some \<lparr>conflictId = cid, newFact = nf, existingFact = ef,
                        conflictType = ambiguity, severity = low,
                        clarificationQuestion =
                          ''Just to be clear, are you talking about the same thing as before, or is this something new?'',
                        suggestedResolution = res_clarify\<rparr>
            else None)
      else None)"

text \<open>
  \<open>analyzeFactConflict\<close> makes a fact of yesterday out of the snapshot's content and
  asks the four detectors in turn; the first conflict found is the result.
\<close>

definition mockExistingFact :: "int \<Rightarrow> LearnedFact \<Rightarrow> string \<Rightarrow> string \<Rightarrow> LearnedFact" where
  "mockExistingFact now nf existingContent existingKey =
     \<lparr>fact_id = existingKey, content = existingContent, category = category nf,
      confidence = 0.8, timestamp = now - 86400000, source = ''previous conversation'',
      verified = True\<rparr>"

definition analyzeFactConflict :: "int \<Rightarrow> nat \<Rightarrow> LearnedFact \<Rightarrow> string \<Rightarrow> string
    \<Rightarrow> ConflictInfo option" where
  "analyzeFactConflict now conflictCounter nf existingContent existingKey =
     (let ef = mockExistingFact now nf existingContent existingKey;
          cid = fst (generateConflictId now conflictCounter)
      in case checkContradiction cid nf ef of
           Some c \<Rightarrow> Some c
         | None \<Rightarrow>
             (case checkTemporalConflict cid nf ef of
                Some c \<Rightarrow> Some c
              | None \<Rightarrow>
                  (case checkInconsistency cid nf ef of
                     Some c \<Rightarrow> Some c
                   | None \<Rightarrow> checkAmbiguity cid nf ef)))"

text \<open>
  \<open>detectConflicts\<close>: the three lists and the counter of the resolver while the two
  loops run, then the result. The facts of the category are those of the own property
  of the snapshot; where there is none they are the entries of \<open>{}\<close> or of an inherited
  value, and there are none of either.
\<close>

record detect_state =
  found :: "ConflictInfo list"
  attention :: "ConflictInfo list"
  resolvable :: "ConflictInfo list"
  counter :: nat

definition detect_pair :: "int \<Rightarrow> LearnedFact \<Rightarrow> detect_state \<Rightarrow> string \<times> string \<Rightarrow> detect_state" where
  "detect_pair now nf st kc =
     (case analyzeFactConflict now (counter st) nf (snd kc) (fst kc) of
        None \<Rightarrow> st
      | Some conflictInfo \<Rightarrow>
          st\<lparr>found := found st @ [conflictInfo],
             attention :=
               (if severity conflictInfo = high \<or> conflictType conflictInfo = contradiction
                then attention st @ [conflictInfo] else attention st),
             resolvable :=
               (if severity conflictInfo = high \<or> conflictType conflictInfo = contradiction
                then resolvable st
                else if suggestedResolution conflictInfo = res_update \<or>
                        suggestedResolution conflictInfo = res_merge
                     then resolvable st @ [conflictInfo] else resolvable st),
             counter := Suc (counter st)\<rparr>)"

definition detect_fact :: "int \<Rightarrow> (string \<times> (string \<times> string) list) list \<Rightarrow> detect_state
    \<Rightarrow> LearnedFact \<Rightarrow> detect_state" where
  "detect_fact now existingFacts st nf =
     (let categoryFacts = (case map_of existingFacts (category nf) of None \<Rightarrow> [] | Some m \<Rightarrow> m)
      in foldl (detect_pair now nf) st (object_entries categoryFacts))"

definition detectConflicts :: "int \<Rightarrow> nat \<Rightarrow> LearnedFact list \<Rightarrow> (string \<times> (string \<times> string) list) list
    \<Rightarrow> ConflictResolutionResult \<times> nat" where
  "detectConflicts now conflictCounter newFacts existingFacts =
     (let st = foldl (detect_fact now existingFacts)
                 \<lparr>found = [], attention = [], resolvable = [], counter = conflictCounter\<rparr>
                 newFacts
      in (\<lparr>conflicts = found st, hasConflicts = (found st \<noteq> []),
           needsImmediateAttention = attention st, autoResolvable = resolvable st\<rparr>,
          counter st))"

text \<open>What holds of every conflict that the resolver reports, and of its lists.\<close>

definition conflict_ok :: "ConflictInfo \<Rightarrow> bool" where
  "conflict_ok c \<longleftrightarrow> conflictType c \<noteq> inconsistency \<and> suggestedResolution c = res_clarify \<and> confidence (existingFact c) = 0.8"

definition state_ok :: "detect_state \<Rightarrow> bool" where
  "state_ok st \<longleftrightarrow> list_all conflict_ok (found st) \<and> resolvable st = []"

text \<open>
  The conflicts that are reported for one pair: the new fact \<open>nf\<close> against the snapshot
  entry with the key \<open>key\<close> and the content \<open>existingContent\<close>. The invariant of the loop
  for such a pair: each of its conflicts is a contradiction of medium severity and is in
  the list that needs immediate attention.
\<close>

definition about_pair :: "LearnedFact \<Rightarrow> string \<Rightarrow> string \<Rightarrow> ConflictInfo \<Rightarrow> bool" where
  "about_pair nf key existingContent c \<longleftrightarrow>
     newFact c = nf \<and> fact_id (existingFact c) = key \<and> content (existingFact c) = existingContent"

definition pair_conflict_ok :: "LearnedFact \<Rightarrow> string \<Rightarrow> string \<Rightarrow> detect_state \<Rightarrow> bool" where
  "pair_conflict_ok nf key existingContent st \<longleftrightarrow>
     list_all (\<lambda>c. about_pair nf key existingContent c \<longrightarrow>
                 conflictType c = contradiction \<and> severity c = medium \<and> c \<in> set (attention st))
       (found st)"

section \<open>Session Store\<close>

text \<open>
  A message carries its timestamp as a valid date, in milliseconds. The store is the
  \<open>Map\<close> of the sessions by id.
\<close>

datatype sender = user | gigi

record ChatMessage =
  msg_id :: string
  msg_text :: string
  sender :: sender
  msg_timestamp :: int

record SessionContext =
  currentTopics :: "string list"
  emotionalState :: string
  ongoingConcerns :: "string list"

record ConversationSession =
  sessionId :: string
  messages :: "ChatMessage list"
  lastActivity :: int
  session_context :: SessionContext

type_synonym sessions = "(string \<times> ConversationSession) list"

text \<open>
  \<open>getOrCreateSession\<close>: \<open>fresh\<close> is the id that \<open>randomUUID()\<close> gives when no
  session id, or an empty one, is passed.
\<close>

definition getOrCreateSession :: "int \<Rightarrow> string \<Rightarrow> string option \<Rightarrow> ChatMessage option \<Rightarrow> sessions
    \<Rightarrow> ConversationSession \<times> sessions" where
  "getOrCreateSession now fresh sessionId_opt initialMessage ss =
     (let sid = (case sessionId_opt of None \<Rightarrow> fresh | Some i \<Rightarrow> if i = [] then fresh else i)
      in case map_of ss sid of
           None \<Rightarrow>
             (let session = \<lparr>sessionId = sid,
                             messages = (case initialMessage of None \<Rightarrow> [] | Some m \<Rightarrow> [m]),
                             lastActivity = now,
                             session_context = \<lparr>currentTopics = [], emotionalState = ''neutral'',
                                                ongoingConcerns = []\<rparr>\<rparr>
              in (session, AList.update sid session ss))
         | Some session \<Rightarrow>
             (let session' = session\<lparr>lastActivity := now\<rparr>
              in (session', AList.update sid session' ss)))"

definition topicPatterns :: "(regex \<times> string) list" where
  "topicPatterns =
     [(Seq WordBoundary (Seq (words [''date'', ''dating'', ''going out'']) WordBoundary), ''dating''),
      (Seq WordBoundary (Seq (words [''dress'', ''outfit'', ''wearing'', ''clothes'']) WordBoundary),
       ''fashion''),
      (Seq WordBoundary (Seq (words [''restaurant'', ''food'', ''eating'', ''meal'']) WordBoundary),
       ''food''),
      (Seq WordBoundary (Seq (words [''vahant'', ''boyfriend'']) WordBoundary), ''relationship''),
      (Seq WordBoundary (Seq (words [''website'', ''dreamscape'', ''project'']) WordBoundary),
       ''projects''),
      (Seq WordBoundary (Seq (words [''sad'', ''happy'', ''excited'', ''nervous'', ''angry''])
         WordBoundary), ''emotions''),
      (Seq WordBoundary (Seq (words [''work'', ''job'', ''office'']) WordBoundary), ''work''),
      (Seq WordBoundary (Seq (words [''family'', ''friends'', ''social'']) WordBoundary),
       ''social'')]"

definition extractTopicsFromMessage :: "string \<Rightarrow> string list" where
  "extractTopicsFromMessage t =
     (let lowerText = toLowerCase t
      in map snd (filter (\<lambda>pt. test False (fst pt) lowerText) topicPatterns))"

definition same_message :: "ChatMessage \<Rightarrow> ChatMessage \<Rightarrow> bool" where
  "same_message message existingMsg \<longleftrightarrow>
     msg_id existingMsg = msg_id message \<or>
     (msg_text existingMsg = msg_text message \<and>
      sender existingMsg = sender message \<and>
      \<bar>msg_timestamp existingMsg - msg_timestamp message\<bar> < 1000)"

text \<open>
  \<open>updateSession\<close>: nothing happens for an unknown session or a message that is already
  there. The optional \<open>emotionalState\<close> is \<open>None\<close> when it is not passed; an empty
  string counts as not passed.
\<close>

definition updateSession :: "int \<Rightarrow> string \<Rightarrow> ChatMessage \<Rightarrow> string option \<Rightarrow> sessions \<Rightarrow> sessions" where
  "updateSession now sid message emotionalState_opt ss =
     (case map_of ss sid of
        None \<Rightarrow> ss
      | Some session \<Rightarrow>
          if list_ex (same_message message) (messages session) then ss
          else
            (let ctx = session_context session;
                 ctx1 = (case emotionalState_opt of
                           None \<Rightarrow> ctx
                         | Some e \<Rightarrow> if e = [] then ctx else ctx\<lparr>emotionalState := e\<rparr>);
                 ctx2 = (if sender message = user then
                           (let topics = extractTopicsFromMessage (msg_text message);
                                merged = uniq (currentTopics ctx1 @ topics)
                            in ctx1\<lparr>currentTopics :=
                                 (if length merged > 5 then drop (length merged - 5) merged
                                  else merged)\<rparr>)
                         else ctx1)
             in AList.update sid
                  (session\<lparr>messages := messages session @ [message], lastActivity := now,
                           session_context := ctx2\<rparr>) ss))"

text \<open>The messages of a session of the store; none for an unknown session.\<close>

definition session_messages :: "string \<Rightarrow> sessions \<Rightarrow> ChatMessage list" where
  "session_messages sid ss = (case map_of ss sid of None \<Rightarrow> [] | Some session \<Rightarrow> messages session)"

section \<open>Response Engine\<close>

text \<open>
  \<open>integrateConflictClarification\<close>, and the step of \<open>generateResponse\<close> that calls it
  on the trimmed reply of the model when there are conflicts.
\<close>

definition newlines :: string where
  "newlines = [CHR 0x0A, CHR 0x0A]"

definition integrateConflictClarification :: "string \<Rightarrow> ConflictInfo list \<Rightarrow> string" where
  "integrateConflictClarification response cs =
     (case filter (\<lambda>c. severity c = high \<or> conflictType c = contradiction) cs of
        conflict # _ \<Rightarrow>
          response @ newlines @ ''Wait bestie, '' @ clarificationQuestion conflict
      | [] \<Rightarrow>
          (case filter (\<lambda>c. severity c = medium) cs of
             conflict # _ \<Rightarrow>
               response @ newlines @ ''By the way, '' @ clarificationQuestion conflict
           | [] \<Rightarrow> response))"

definition response_text :: "string \<Rightarrow> ConflictInfo list \<Rightarrow> string" where
  "response_text reply cs =
     (let response = trim reply
      in if length cs > 0 then integrateConflictClarification response cs else response)"

section \<open>Example data\<close>

definition old_weak_fact :: LearnedFact where
  "old_weak_fact =
     \<lparr>fact_id = ''f1'', content = ''Date on friday'', category = ''plans'', confidence = 0.1,
      timestamp = 0, source = ''date on friday'', verified = True\<rparr>"


definition old_weak_entry :: MemoryEntry where
  "old_weak_entry =
     \<lparr>fact = old_weak_fact, lastAccessed = 0, accessCount = 0, entry_verified = True,
      entry_confidence = 0.1, relatedFacts = []\<rparr>"

definition likes_tea :: LearnedFact where
  "likes_tea =
     \<lparr>fact_id = ''merged_1700000000000'', content = ''likes tea'', category = ''preferences'',
      confidence = 0.8, timestamp = 1700000000000, source = ''Merged: i like tea'',
      verified = True\<rparr>"


definition hates_tea :: LearnedFact where
  "hates_tea =
     \<lparr>fact_id = ''fact_1700000000000_1'', content = ''hates tea'', category = ''preferences'',
      confidence = 0.6, timestamp = 1700000000000, source = ''i hate tea'', verified = True\<rparr>"



definition sam_message :: string where
  "sam_message = ''I'm going on a date with Sam tomorrow''"

definition vahant_message :: string where
  "vahant_message = ''I'm going on a date with Vahant tomorrow''"

definition overconfident_reply :: parsed_response where
  "overconfident_reply =
     Parsed (Some [Some \<lparr>fd_content = ''Loves tea'', fd_category = ''preferences'',
                          fd_confidence = 1.5, fd_needsVerification = False\<rparr>])"

definition overconfident_fact :: LearnedFact where
  "overconfident_fact =
     \<lparr>fact_id = ''fact_5_1'', content = ''Loves tea'', category = ''preferences'',
      confidence = 1.5, timestamp = 5, source = ''I love tea'', verified = True\<rparr>"

definition loves_spicy :: LearnedFact where
  "loves_spicy =
     \<lparr>fact_id = ''fact_1_1'', content = ''I love spicy food'', category = ''preferences'',
      confidence = 0.9, timestamp = 1, source = ''I love spicy food'', verified = True\<rparr>"

definition hates_spicy :: LearnedFact where
  "hates_spicy =
     \<lparr>fact_id = ''fact_2_2'', content = ''I hate spicy food'', category = ''preferences'',
      confidence = 0.9, timestamp = 2, source = ''I hate spicy food'', verified = True\<rparr>"

definition spicy_conflict :: ConflictInfo where
  "spicy_conflict =
     \<lparr>conflictId = ''conflict_2_1'', newFact = hates_spicy,
      existingFact = mockExistingFact 2 hates_spicy ''I love spicy food'' ''fact_1_1'',
      conflictType = contradiction, severity = medium,
      clarificationQuestion = ''I'm confused - do you like or dislike spicy? You've mentioned both!'',
      suggestedResolution = res_clarify\<rparr>"

definition hello_message :: ChatMessage where
  "hello_message =
     \<lparr>msg_id = ''m1'', msg_text = ''I am happy about my date'', sender = user,
      msg_timestamp = 5000\<rparr>"

definition one_session :: sessions where
  "one_session = snd (getOrCreateSession 4000 ''uuid-1'' (Some ''s1'') None [])"

definition low_conflict :: ConflictInfo where
  "low_conflict =
     spicy_conflict\<lparr>conflictType := ambiguity, severity := low,
       clarificationQuestion := ''same thing as before?''\<rparr>"

definition medium_conflict :: ConflictInfo where
  "medium_conflict =
     spicy_conflict\<lparr>conflictType := temporal, severity := medium,
       clarificationQuestion := ''which date?''\<rparr>"

definition hello_session :: ConversationSession where
  "hello_session =
     \<lparr>sessionId = ''s1'', messages = [hello_message], lastActivity = 6000,
      session_context = \<lparr>currentTopics = [''dating'', ''emotions''], emotionalState = ''happy'',
                         ongoingConcerns = []\<rparr>\<rparr>"

definition retry_message :: ChatMessage where
  "retry_message =
     \<lparr>msg_id = ''m2'', msg_text = ''I am happy about my date'', sender = user,
      msg_timestamp = 5999\<rparr>"

definition unsure_fact :: LearnedFact where
  "unsure_fact =
     \<lparr>fact_id = ''fact_2_3'', content = ''likes green tea'', category = ''preferences'',
      confidence = 0.5, timestamp = 2, source = ''maybe green tea'', verified = True\<rparr>"

definition sure_fact :: LearnedFact where
  "sure_fact =
     \<lparr>fact_id = ''fact_1_2'', content = ''likes black tea'', category = ''preferences'',
      confidence = 0.9, timestamp = 1, source = ''black tea'', verified = True\<rparr>"

definition four_facts_bank :: IntelligentMemoryBank where
  "four_facts_bank =
     storeFact 3 unsure_fact [] (storeFact 3 sure_fact []
       (storeFact 3 hates_spicy [] (storeFact 3 loves_spicy [] empty_bank)))"

definition tea_kinds_conflict :: ConflictInfo where
  "tea_kinds_conflict =
     \<lparr>conflictId = ''conflict_3_1'', newFact = unsure_fact, existingFact = sure_fact,
      conflictType = inconsistency, severity = low,
      clarificationQuestion =
        ''I want to make sure I understand correctly - you mentioned something similar before. Can you clarify?'',
      suggestedResolution = res_merge\<rparr>"

definition spicy_stored_conflict :: ConflictInfo where
  "spicy_stored_conflict = spicy_conflict\<lparr>existingFact := loves_spicy\<rparr>"

definition proto_snapshot :: "(string \<times> (string \<times> string) list) list" where
  "proto_snapshot = [(''plans'', [(''__proto__'', ''Date on friday'')])]"

definition proto_bank :: IntelligentMemoryBank where
  "proto_bank = importKnowledge 1700000000000 proto_snapshot empty_bank"

definition two_new_facts :: "LearnedFact list" where
  "two_new_facts = [unsure_fact, hates_spicy]"

definition two_fact_snapshot :: "(string \<times> (string \<times> string) list) list" where
  "two_fact_snapshot =
     [(''preferences'', [(''fact_1_2'', ''likes black tea''), (''fact_1_1'', ''I love spicy food'')])]"

section \<open>Properties of the Memory Bank\<close>

lemma memory_deleteFact:
  "memory (deleteFact k b) = AList.delete k (memory b)"
proof (cases "map_of (memory b) k")
  case None
  then have "k \<notin> fst ` set (memory b)"
    by (simp add: map_of_eq_None_iff)
  then have "AList.delete k (memory b) = memory b"
    by simp
  with None show ?thesis by (simp add: deleteFact_def)
next
  case (Some e)
  then show ?thesis by (simp add: deleteFact_def)
qed

lemma memory_foldl_deleteFact:
  "memory (foldl (\<lambda>b' k. deleteFact k b') b ks) = filter (\<lambda>(k, e). k \<notin> set ks) (memory b)"
proof (induction ks arbitrary: b)
  case Nil
  then show ?case by simp
next
  case (Cons k ks)
  have "filter (\<lambda>(k', e). k' \<notin> set ks) (AList.delete k al)
        = filter (\<lambda>(k', e). k' \<notin> set (k # ks)) al" for al :: "(string \<times> MemoryEntry) list"
    by (induction al) auto
  with Cons show ?case by (simp add: memory_deleteFact)
qed

lemma filter_keys_of_filter:
  assumes "distinct (map fst al)"
  shows "filter (\<lambda>(k, e). k \<notin> set (map fst (filter (\<lambda>(k, e). P e) al))) al
         = filter (\<lambda>(k, e). \<not> P e) al"
proof -
  have "\<And>k e. (k, e) \<in> set al \<Longrightarrow>
          (k \<notin> set (map fst (filter (\<lambda>(k, e). P e) al))) = (\<not> P e)"
  proof -
    fix k e assume in_al: "(k, e) \<in> set al"
    show "(k \<notin> set (map fst (filter (\<lambda>(k, e). P e) al))) = (\<not> P e)"
    proof
      assume "k \<notin> set (map fst (filter (\<lambda>(k, e). P e) al))"
      with in_al show "\<not> P e" by force
    next
      assume np: "\<not> P e"
      show "k \<notin> set (map fst (filter (\<lambda>(k, e). P e) al))"
      proof
        assume "k \<in> set (map fst (filter (\<lambda>(k, e). P e) al))"
        then obtain e' where e': "(k, e') \<in> set al" "P e'" by auto
        from assms in_al e'(1) have "e' = e"
          by (meson eq_key_imp_eq_value)
        with np e'(2) show False by simp
      qed
    qed
  qed
  then show ?thesis
    by (intro filter_cong) auto
qed

lemma memory_cleanup:
  assumes "distinct (map fst (memory b))"
  shows "memory (cleanup now minConfidence maxAge b)
         = filter (\<lambda>(k, e). \<not> shouldDelete minConfidence (now - maxAge * 24 * 60 * 60 * 1000) e)
             (memory b)"
  unfolding cleanup_def Let_def memory_foldl_deleteFact
  using filter_keys_of_filter [OF assms, of "shouldDelete minConfidence (now - maxAge * 24 * 60 * 60 * 1000)"]
  by simp

lemma map_of_filter_val:
  assumes "distinct (map fst al)" and "map_of al k = Some e"
  shows "map_of (filter (\<lambda>(k, e). Q e) al) k = (if Q e then Some e else None)"
  using assms
proof (induction al)
  case Nil
  then show ?case by simp
next
  case (Cons p al)
  obtain k' e' where p: "p = (k', e')" by (cases p)
  show ?case
  proof (cases "k' = k")
    case True
    with Cons.prems p have "e' = e" and "k \<notin> fst ` set al" by auto
    then have "map_of (filter (\<lambda>(k, e). Q e) al) k = None"
      by (auto simp: map_of_eq_None_iff)
    with True p \<open>e' = e\<close> show ?thesis by simp
  next
    case False
    with Cons p show ?thesis by simp
  qed
qed

text \<open>
  C6: \<open>cleanup\<close> removes a stored fact exactly when its entry's confidence is below
  \<open>minConfidence\<close>, its timestamp is before \<open>now - maxAge\<close> days and its access count is
  0; a fact that stays keeps its entry, and a fact that was accessed always stays.
\<close>

theorem cleanup_removes_iff:
  assumes "distinct (map fst (memory b))" and "map_of (memory b) k = Some e"
  shows "(map_of (memory (cleanup now minConfidence maxAge b)) k = None \<longleftrightarrow>
            entry_confidence e < minConfidence \<and>
            timestamp (fact e) < now - maxAge * 24 * 60 * 60 * 1000 \<and>
            accessCount e = 0) \<and>
         (map_of (memory (cleanup now minConfidence maxAge b)) k \<noteq> None \<longrightarrow>
            map_of (memory (cleanup now minConfidence maxAge b)) k = Some e) \<and>
         (0 < accessCount e \<longrightarrow>
            map_of (memory (cleanup now minConfidence maxAge b)) k = Some e)"
  unfolding memory_cleanup [OF assms(1)]
  using map_of_filter_val [OF assms,
      of "\<lambda>e. \<not> shouldDelete minConfidence (now - maxAge * 24 * 60 * 60 * 1000) e"]
  by (auto simp: shouldDelete_def)


lemma memory_store_old_weak:
  "memory (storeFact 0 old_weak_fact [] empty_bank) = [(''f1'', old_weak_entry)]"
  by (simp add: storeFact_def updateIndexes_def empty_bank_def old_weak_fact_def
      old_weak_entry_def)

theorem cleanup_removes_iff_witness:
  "distinct (map fst (memory (storeFact 0 old_weak_fact [] empty_bank))) \<and>
   map_of (memory (storeFact 0 old_weak_fact [] empty_bank)) ''f1'' = Some old_weak_entry \<and>
   map_of (memory (cleanup 3456000000 0.3 30 (storeFact 0 old_weak_fact [] empty_bank))) ''f1''
     = None \<and>
   map_of (memory (cleanup 86400000 0.3 30 (storeFact 0 old_weak_fact [] empty_bank))) ''f1''
     = Some old_weak_entry"
proof -
  let ?b = "storeFact 0 old_weak_fact [] empty_bank"
  have d: "distinct (map fst (memory ?b))"
    by (simp add: memory_store_old_weak)
  have m: "map_of (memory ?b) ''f1'' = Some old_weak_entry"
    by (simp add: memory_store_old_weak)
  have "map_of (memory (cleanup 3456000000 0.3 30 ?b)) ''f1'' = None"
    using cleanup_removes_iff [OF d m, of 3456000000 "0.3" 30]
    by (simp add: old_weak_entry_def old_weak_fact_def)
  moreover have "map_of (memory (cleanup 86400000 0.3 30 ?b)) ''f1'' = Some old_weak_entry"
    using cleanup_removes_iff [OF d m, of 86400000 "0.3" 30]
    by (simp add: old_weak_entry_def old_weak_fact_def)
  ultimately show ?thesis using d m by simp
qed

text \<open>
  C3 fails on the code: \<open>storeFact\<close> with an id that is already stored leaves the id in
  the bucket of the old category. After the fact \<open>f1\<close> is stored under \<open>plans\<close>, stored
  again under \<open>emotions\<close> and removed by \<open>cleanup\<close>, the bucket of \<open>plans\<close> still holds
  \<open>f1\<close>, which has no entry any more.
\<close>

theorem restore_then_cleanup_leaves_stale_index:
  "map_of (memory
       (cleanup 3456000000 0.3 30
          (storeFact 0 (old_weak_fact\<lparr>category := ''emotions''\<rparr>) []
             (storeFact 0 old_weak_fact [] empty_bank)))) ''f1'' = None \<and>
   map_of (categoryIndex
       (cleanup 3456000000 0.3 30
          (storeFact 0 (old_weak_fact\<lparr>category := ''emotions''\<rparr>) []
             (storeFact 0 old_weak_fact [] empty_bank)))) ''plans'' = Some [''f1'']"
  by (simp add: cleanup_def storeFact_def old_weak_fact_def empty_bank_def updateIndexes_def
      index_add_def set_add_def toDateString_def shouldDelete_def deleteFact_def
      index_remove_def)

subsection \<open>Conflict resolution\<close>

lemma memory_storeFact:
  "memory (storeFact now f rel b) =
     AList.update (fact_id f)
       \<lparr>fact = f, lastAccessed = now, accessCount = 0, entry_verified = verified f,
        entry_confidence = confidence f, relatedFacts = rel\<rparr> (memory b)"
  by (simp add: storeFact_def updateIndexes_def)

lemma dom_memory_updateFactConfidence:
  "dom (map_of (memory (updateFactConfidence now k c v b))) = dom (map_of (memory b))"
  by (auto simp: updateFactConfidence_def update_conv' split: option.splits if_splits)

lemma dom_memory_storeFact:
  "dom (map_of (memory (storeFact now f rel b))) = insert (fact_id f) (dom (map_of (memory b)))"
  by (simp add: memory_storeFact update_conv')

lemma dom_memory_resolveConflict:
  "dom (map_of (memory b)) \<subseteq> dom (map_of (memory (resolveConflict now ci choice b)))"
  by (cases choice) (auto simp: dom_memory_storeFact dom_memory_updateFactConfidence)

lemma length_update_fresh:
  "map_of al k = None \<Longrightarrow> length (AList.update k v al) = Suc (length al)"
  by (induction al) (auto split: if_splits)

lemma string_of_int_5: "string_of_int 5 = ''5''"
  by (simp add: string_of_int_def string_of_nat.simps digit_char_def)

text \<open>
  The merge choice stores, under the id \<open>merged_\<close> followed by the time, the fact
  whose content is the two contents joined by \<open>; \<close> and whose confidence is the mean of
  the two confidences, linked to both ancestors, and changes the entry of no other id. No
  choice removes an id. The merge adds one fact when that id is not stored yet.
\<close>

lemma resolveConflict_merge_stores:
  "map_of (memory (resolveConflict now ci choice_merge b)) (''merged_'' @ string_of_int now)
     = Some \<lparr>fact = mergedFact now ci, lastAccessed = now, accessCount = 0,
             entry_verified = True,
             entry_confidence = (confidence (existingFact ci) + confidence (newFact ci)) / 2,
             relatedFacts = [fact_id (existingFact ci), fact_id (newFact ci)]\<rparr> \<and>
   content (mergedFact now ci) = content (existingFact ci) @ ''; '' @ content (newFact ci) \<and>
   confidence (mergedFact now ci) = (confidence (existingFact ci) + confidence (newFact ci)) / 2 \<and>
   (\<forall>k. k \<noteq> ''merged_'' @ string_of_int now \<longrightarrow>
      map_of (memory (resolveConflict now ci choice_merge b)) k = map_of (memory b) k)"
  by (simp add: memory_storeFact update_conv' mergedFact_def)

lemma resolveConflict_keeps_ids:
  "map_of (memory b) k \<noteq> None \<Longrightarrow> map_of (memory (resolveConflict now ci choice b)) k \<noteq> None"
  using dom_memory_resolveConflict [of b now ci choice] by (auto simp: dom_def subset_iff)

lemma resolveConflict_merge_fresh:
  assumes "map_of (memory b) (''merged_'' @ string_of_int now) = None"
  shows "length (memory (resolveConflict now ci choice_merge b)) = length (memory b) + 1"
  using assms by (simp add: memory_storeFact mergedFact_def length_update_fresh)

lemma string_of_int_first: "string_of_int 1700000000000 = ''1700000000000''"
  by (simp add: string_of_int_def string_of_nat.simps digit_char_def)

lemma memory_four_facts_bank:
  "map fst (memory four_facts_bank) = [''fact_1_1'', ''fact_2_2'', ''fact_1_2'', ''fact_2_3'']"
  by (simp add: four_facts_bank_def memory_storeFact empty_bank_def loves_spicy_def
      hates_spicy_def sure_fact_def unsure_fact_def)

text \<open>
  C5 fails on the code: the merged fact's id is \<open>merged_\<close> followed by the time in
  milliseconds, and \<open>storeFact\<close> replaces the entry of an id that is already stored. In
  a bank with four facts, two conflicts between stored facts are resolved with the merge
  choice in the same millisecond: the first merge adds the fact
  \<open>likes black tea; likes green tea\<close>, the second adds no fact and replaces the first
  merged fact by \<open>I love spicy food; I hate spicy food\<close>, which is then no longer
  retrievable.
\<close>

theorem second_merge_in_same_millisecond_overwrites_first:
  "map (\<lambda>ke. (fst ke, fact (snd ke))) (memory four_facts_bank)
     = [(''fact_1_1'', loves_spicy), (''fact_2_2'', hates_spicy),
        (''fact_1_2'', sure_fact), (''fact_2_3'', unsure_fact)] \<and>
   (existingFact tea_kinds_conflict, newFact tea_kinds_conflict) = (sure_fact, unsure_fact) \<and>
   (existingFact spicy_stored_conflict, newFact spicy_stored_conflict) = (loves_spicy, hates_spicy) \<and>
   map fst (memory (resolveConflict 1700000000000 tea_kinds_conflict choice_merge four_facts_bank))
     = [''fact_1_1'', ''fact_2_2'', ''fact_1_2'', ''fact_2_3'', ''merged_1700000000000''] \<and>
   map_option (content \<circ> fact)
     (map_of (memory (resolveConflict 1700000000000 tea_kinds_conflict choice_merge four_facts_bank))
        ''merged_1700000000000'')
     = Some ''likes black tea; likes green tea'' \<and>
   map fst (memory (resolveConflict 1700000000000 spicy_stored_conflict choice_merge
       (resolveConflict 1700000000000 tea_kinds_conflict choice_merge four_facts_bank)))
     = [''fact_1_1'', ''fact_2_2'', ''fact_1_2'', ''fact_2_3'', ''merged_1700000000000''] \<and>
   map_option (content \<circ> fact)
     (map_of (memory (resolveConflict 1700000000000 spicy_stored_conflict choice_merge
        (resolveConflict 1700000000000 tea_kinds_conflict choice_merge four_facts_bank)))
        ''merged_1700000000000'')
     = Some ''I love spicy food; I hate spicy food''"
  by (simp add: string_of_int_first four_facts_bank_def memory_storeFact empty_bank_def
      loves_spicy_def hates_spicy_def sure_fact_def unsure_fact_def tea_kinds_conflict_def
      spicy_stored_conflict_def spicy_conflict_def mergedFact_def)

subsection \<open>Export and import\<close>

text \<open>
  The export holds exactly the triples of the bank that a plain object can hold, and the
  import stores every triple of a snapshot. So, for a bank in which no category is an
  inherited name, the round trip into an empty bank keeps exactly the triples whose id is
  not \<open>__proto__\<close>, and the round trip into the bank itself changes no triple. Every
  imported fact has confidence 0.8 and is verified.
\<close>

lemma set_update_subset: "set (AList.update k v al) \<subseteq> insert (k, v) (set al)"
  by (induction al) auto

lemma set_object_entries: "set (object_entries obj) = set obj"
  by (auto simp: object_entries_def)

lemma set_flat_entries: "set (flat_entries kn) = set (flat kn)"
  by (auto simp: flat_entries_def flat_def set_object_entries)

lemma lookup_none_names:
  "snapshot_ok ex \<Longrightarrow> map_of ex cat = Some inner \<Longrightarrow> cat \<notin> set object_prototype_names"
  by (auto simp: snapshot_ok_def list_all_iff)

lemma lookup2_export_entry:
  assumes "snapshot_ok ex"
  shows "lookup2 (export_entry ex ke) cat k =
     (if ordinary_triple (triple_of (snd ke)) \<and> cat = category (fact (snd ke)) \<and>
         k = fact_id (fact (snd ke))
      then Some (content (fact (snd ke)))
      else lookup2 ex cat k)"
proof (cases "map_of ex (category (fact (snd ke)))")
  case None
  then show ?thesis
    by (auto simp: lookup2_def export_entry_def Let_def update_conv' object_set_def
        ordinary_triple_def triple_of_def split: option.splits)
next
  case (Some inner)
  from lookup_none_names [OF assms Some] Some show ?thesis
    by (auto simp: lookup2_def export_entry_def Let_def update_conv' object_set_def
        ordinary_triple_def triple_of_def split: option.splits)
qed

lemma distinct_object_set: "distinct (map fst obj) \<Longrightarrow> distinct (map fst (object_set k v obj))"
  by (simp add: object_set_def distinct_update)

lemma snapshot_ok_update:
  assumes "snapshot_ok ex" and "cat \<notin> set object_prototype_names" and "distinct (map fst v)"
  shows "snapshot_ok (AList.update cat v ex)"
proof -
  have "set (AList.update cat v ex) \<subseteq> insert (cat, v) (set ex)"
    by (rule set_update_subset)
  with assms have "list_all (\<lambda>(cat, m). distinct (map fst m)) (AList.update cat v ex)"
    by (auto simp: snapshot_ok_def obj_ok_def list_all_iff)
  moreover from assms have "distinct (map fst (AList.update cat v ex))"
    by (simp add: snapshot_ok_def obj_ok_def distinct_update)
  moreover from assms
  have "list_all (\<lambda>c. map_of (AList.update cat v ex) c = None) object_prototype_names"
    by (auto simp: snapshot_ok_def list_all_iff update_conv')
  ultimately show ?thesis
    by (simp add: snapshot_ok_def obj_ok_def)
qed

lemma snapshot_ok_export_entry:
  assumes "snapshot_ok ex"
  shows "snapshot_ok (export_entry ex ke)"
proof (cases "map_of ex (category (fact (snd ke)))")
  case None
  show ?thesis
  proof (cases "category (fact (snd ke)) \<in> set object_prototype_names")
    case True
    with None assms show ?thesis by (simp add: export_entry_def Let_def)
  next
    case False
    have "distinct (map fst (object_set (fact_id (fact (snd ke))) (content (fact (snd ke))) []))"
      by (rule distinct_object_set) simp
    from snapshot_ok_update [OF assms False this] None False show ?thesis
      by (simp add: export_entry_def Let_def)
  qed
next
  case (Some inner)
  then have "(category (fact (snd ke)), inner) \<in> set ex" by (rule map_of_SomeD)
  with assms have "distinct (map fst inner)"
    by (auto simp: snapshot_ok_def obj_ok_def list_all_iff)
  then have "distinct (map fst (object_set (fact_id (fact (snd ke))) (content (fact (snd ke))) inner))"
    by (rule distinct_object_set)
  from snapshot_ok_update [OF assms lookup_none_names [OF assms Some] this] Some show ?thesis
    by (simp add: export_entry_def Let_def)
qed

lemma snapshot_ok_foldl_export: "snapshot_ok ex \<Longrightarrow> snapshot_ok (foldl export_entry ex al)"
  by (induction al arbitrary: ex) (auto simp: snapshot_ok_export_entry)

lemma snapshot_ok_exportKnowledge: "snapshot_ok (exportKnowledge b)"
  unfolding exportKnowledge_def
  by (rule snapshot_ok_foldl_export)
    (simp add: snapshot_ok_def obj_ok_def object_prototype_names_def)

lemma flat_lookup2:
  assumes "obj_ok kn"
  shows "(cat, k, c) \<in> set (flat kn) \<longleftrightarrow> lookup2 kn cat k = Some c"
proof -
  have inner: "distinct (map fst m)" if "(cat, m) \<in> set kn" for m
    using assms that by (auto simp: obj_ok_def list_all_iff)
  have outer: "distinct (map fst kn)"
    using assms by (simp add: obj_ok_def)
  have "(cat, k, c) \<in> set (flat kn) \<longleftrightarrow> (\<exists>m. (cat, m) \<in> set kn \<and> (k, c) \<in> set m)"
    by (auto simp: flat_def)
  also have "\<dots> \<longleftrightarrow> (\<exists>m. map_of kn cat = Some m \<and> map_of m k = Some c)"
  proof
    assume "\<exists>m. (cat, m) \<in> set kn \<and> (k, c) \<in> set m"
    then obtain m where m: "(cat, m) \<in> set kn" "(k, c) \<in> set m" by blast
    from outer m(1) have "map_of kn cat = Some m" by simp
    moreover from inner [OF m(1)] m(2) have "map_of m k = Some c" by simp
    ultimately show "\<exists>m. map_of kn cat = Some m \<and> map_of m k = Some c" by blast
  next
    assume "\<exists>m. map_of kn cat = Some m \<and> map_of m k = Some c"
    then obtain m where m: "map_of kn cat = Some m" "map_of m k = Some c" by blast
    then have "(cat, m) \<in> set kn" "(k, c) \<in> set m" by (auto dest: map_of_SomeD)
    then show "\<exists>m. (cat, m) \<in> set kn \<and> (k, c) \<in> set m" by blast
  qed
  also have "\<dots> \<longleftrightarrow> lookup2 kn cat k = Some c"
    by (auto simp: lookup2_def split: option.splits)
  finally show ?thesis .
qed

lemma lookup2_foldl_export:
  assumes "distinct (map (\<lambda>p. fact_id (fact (snd p))) al)" and "snapshot_ok ex"
  shows "lookup2 (foldl export_entry ex al) cat k = Some c \<longleftrightarrow>
     ((cat, k, c) \<in> triple_of ` snd ` set al \<and> ordinary_triple (cat, k, c)) \<or>
     (\<not> (\<exists>p \<in> set al. ordinary_triple (triple_of (snd p)) \<and>
            category (fact (snd p)) = cat \<and> fact_id (fact (snd p)) = k) \<and>
      lookup2 ex cat k = Some c)"
  using assms
proof (induction al arbitrary: ex)
  case Nil
  then show ?case by simp
next
  case (Cons p al)
  from Cons.prems have d: "distinct (map (\<lambda>p. fact_id (fact (snd p))) al)"
    by simp
  from Cons.prems have "fact_id (fact (snd p)) \<notin> (\<lambda>p. fact_id (fact (snd p))) ` set al"
    by simp
  then have fresh: "\<forall>q \<in> set al. fact_id (fact (snd q)) \<noteq> fact_id (fact (snd p))"
    by (metis imageI)
  have ok: "snapshot_ok (export_entry ex p)"
    using Cons.prems(2) by (rule snapshot_ok_export_entry)
  note IH = Cons.IH [OF d ok]
  show ?case
  proof (cases "ordinary_triple (triple_of (snd p)) \<and> cat = category (fact (snd p)) \<and>
         k = fact_id (fact (snd p))")
    case True
    with fresh have no_later: "\<not> (\<exists>q \<in> set al. ordinary_triple (triple_of (snd q)) \<and>
            category (fact (snd q)) = cat \<and> fact_id (fact (snd q)) = k)"
      by auto
    from fresh True have no_triple: "\<And>c'. (cat, k, c') \<notin> triple_of ` snd ` set al"
      by (auto simp: triple_of_def)
    have "lookup2 (foldl export_entry ex (p # al)) cat k = Some c \<longleftrightarrow>
          c = content (fact (snd p))"
      using IH no_later no_triple True
      by (auto simp: lookup2_export_entry [OF Cons.prems(2)])
    also have "\<dots> \<longleftrightarrow> (cat, k, c) = triple_of (snd p)"
      using True by (auto simp: triple_of_def)
    finally show ?thesis
      using True no_triple by (auto simp: ordinary_triple_def triple_of_def)
  next
    case False
    then have step: "lookup2 (export_entry ex p) cat k = lookup2 ex cat k"
      unfolding lookup2_export_entry [OF Cons.prems(2)] by (rule if_not_P)
    from False have not_p: "\<not> ((cat, k, c) = triple_of (snd p) \<and> ordinary_triple (cat, k, c))"
      by (auto simp: triple_of_def)
    show ?thesis
      using IH False not_p unfolding step by auto
  qed
qed

lemma flat_export:
  assumes "keys_ok b"
  shows "set (flat (exportKnowledge b)) = {t \<in> triples b. ordinary_triple t}"
proof -
  have ids: "map (\<lambda>p. fact_id (fact (snd p))) (memory b) = map fst (memory b)"
    using assms by (auto simp: keys_ok_def list_all_iff)
  have d: "distinct (map (\<lambda>p. fact_id (fact (snd p))) (memory b))"
    using assms unfolding ids by (simp add: keys_ok_def)
  have ok0: "snapshot_ok []"
    by (simp add: snapshot_ok_def obj_ok_def object_prototype_names_def)
  have ok: "obj_ok (exportKnowledge b)"
    using snapshot_ok_exportKnowledge [of b] by (simp add: snapshot_ok_def)
  have "t \<in> set (flat (exportKnowledge b)) \<longleftrightarrow> t \<in> triples b \<and> ordinary_triple t" for t
  proof -
    obtain cat k c where t: "t = (cat, k, c)" by (cases t)
    have "t \<in> set (flat (exportKnowledge b)) \<longleftrightarrow> lookup2 (exportKnowledge b) cat k = Some c"
      unfolding t by (rule flat_lookup2 [OF ok])
    also have "\<dots> \<longleftrightarrow> t \<in> triples b \<and> ordinary_triple t"
      using lookup2_foldl_export [OF d ok0, of cat k c]
      by (simp add: exportKnowledge_def lookup2_def triples_def t)
    finally show ?thesis .
  qed
  then show ?thesis by blast
qed

lemma importKnowledge_flat:
  "importKnowledge now kn b = foldl (store_triple now) b (flat_entries kn)"
proof -
  have inner: "foldl (\<lambda>b'' (key, c). storeFact now (importedFact now cat key c) [] b'') b' facts
        = foldl (store_triple now) b' (map (\<lambda>(key, c). (cat, key, c)) facts)" for cat facts b'
    by (induction facts arbitrary: b') (auto simp: store_triple_def)
  have outer: "foldl (\<lambda>b' (cat, facts).
              foldl (\<lambda>b'' (key, c). storeFact now (importedFact now cat key c) [] b'') b'
                (object_entries facts)) b kn'
        = foldl (store_triple now) b
            (concat (map (\<lambda>(cat, facts). map (\<lambda>(key, c). (cat, key, c)) (object_entries facts)) kn'))"
    for kn' :: "(string \<times> (string \<times> string) list) list"
    by (induction kn' arbitrary: b) (auto simp: inner)
  show ?thesis
    unfolding importKnowledge_def flat_entries_def by (rule outer)
qed

lemma memory_store_triple:
  "memory (store_triple now b t) = AList.update (fst (snd t)) (imported_entry now t) (memory b)"
  by (simp add: store_triple_def memory_storeFact imported_entry_def importedFact_def)

lemma import_other:
  "k \<notin> (\<lambda>t. fst (snd t)) ` set ts \<Longrightarrow>
     map_of (memory (foldl (store_triple now) b ts)) k = map_of (memory b) k"
  by (induction ts arbitrary: b) (auto simp: memory_store_triple update_conv')

lemma import_hit:
  "k \<in> (\<lambda>t. fst (snd t)) ` set ts \<Longrightarrow>
     \<exists>t \<in> set ts. fst (snd t) = k \<and>
       map_of (memory (foldl (store_triple now) b ts)) k = Some (imported_entry now t)"
proof (induction ts arbitrary: b)
  case Nil
  then show ?case by simp
next
  case (Cons t ts)
  show ?case
  proof (cases "k \<in> (\<lambda>t. fst (snd t)) ` set ts")
    case True
    from Cons.IH [OF True, of "store_triple now b t"] show ?thesis by auto
  next
    case False
    with Cons.prems have k: "fst (snd t) = k" by auto
    from import_other [OF False, of now "store_triple now b t"] k
    show ?thesis by (auto simp: memory_store_triple update_conv')
  qed
qed

lemma keys_ok_store_triple: "keys_ok b \<Longrightarrow> keys_ok (store_triple now b t)"
  unfolding keys_ok_def memory_store_triple
  using set_update_subset [of "fst (snd t)" "imported_entry now t" "memory b"]
  by (auto simp: distinct_update list_all_iff imported_entry_def importedFact_def)

lemma keys_ok_import: "keys_ok b \<Longrightarrow> keys_ok (foldl (store_triple now) b ts)"
  by (induction ts arbitrary: b) (auto simp: keys_ok_store_triple)

lemma triples_iff:
  assumes "keys_ok b"
  shows "t \<in> triples b \<longleftrightarrow> (\<exists>e. map_of (memory b) (fst (snd t)) = Some e \<and> triple_of e = t)"
proof
  assume "t \<in> triples b"
  then obtain k' e where e: "(k', e) \<in> set (memory b)" "triple_of e = t"
    by (auto simp: triples_def)
  with assms have "fact_id (fact e) = k'" by (auto simp: keys_ok_def list_all_iff)
  with e(2) have "k' = fst (snd t)" by (auto simp: triple_of_def)
  moreover from assms e(1) have "map_of (memory b) k' = Some e" by (simp add: keys_ok_def)
  ultimately show "\<exists>e. map_of (memory b) (fst (snd t)) = Some e \<and> triple_of e = t"
    using e(2) by blast
next
  assume "\<exists>e. map_of (memory b) (fst (snd t)) = Some e \<and> triple_of e = t"
  then obtain e where e: "map_of (memory b) (fst (snd t)) = Some e" "triple_of e = t"
    by blast
  from e(1) have "(fst (snd t), e) \<in> set (memory b)" by (rule map_of_SomeD)
  then have "e \<in> snd ` set (memory b)" by force
  with e(2) show "t \<in> triples b" unfolding triples_def by blast
qed

lemma triple_of_imported: "triple_of (imported_entry now t) = t"
  by (simp add: triple_of_def imported_entry_def importedFact_def)

lemma import_triples:
  assumes ok: "keys_ok b" and ok0: "keys_ok b0"
    and ts: "set ts \<subseteq> triples b"
    and sub: "triples b0 \<subseteq> triples b"
  shows "triples (foldl (store_triple now) b0 ts) = set ts \<union> triples b0"
proof -
  let ?b' = "foldl (store_triple now) b0 ts"
  have ok': "keys_ok ?b'" using ok0 by (rule keys_ok_import)
  have uniq: "t = t'" if "t \<in> triples b" "t' \<in> triples b" "fst (snd t) = fst (snd t')" for t t'
  proof -
    from that(1) obtain e where e: "map_of (memory b) (fst (snd t)) = Some e" "triple_of e = t"
      unfolding triples_iff [OF ok] by blast
    from that(2) obtain e' where e': "map_of (memory b) (fst (snd t')) = Some e'" "triple_of e' = t'"
      unfolding triples_iff [OF ok] by blast
    from e(1) e'(1) that(3) have "e = e'" by simp
    with e(2) e'(2) show ?thesis by simp
  qed
  have "t \<in> triples ?b' \<longleftrightarrow> t \<in> set ts \<or> t \<in> triples b0" for t
  proof (cases "fst (snd t) \<in> (\<lambda>t. fst (snd t)) ` set ts")
    case True
    from import_hit [OF True, of now b0] obtain t' where
      t': "t' \<in> set ts" "fst (snd t') = fst (snd t)"
          "map_of (memory ?b') (fst (snd t)) = Some (imported_entry now t')"
      by blast
    have "t \<in> triples ?b' \<longleftrightarrow> t' = t"
      unfolding triples_iff [OF ok'] t'(3) by (simp add: triple_of_imported)
    also have "\<dots> \<longleftrightarrow> t \<in> set ts \<or> t \<in> triples b0"
    proof
      assume "t' = t"
      with t'(1) show "t \<in> set ts \<or> t \<in> triples b0" by simp
    next
      assume "t \<in> set ts \<or> t \<in> triples b0"
      with ts sub have "t \<in> triples b" by blast
      moreover from t'(1) ts have "t' \<in> triples b" by blast
      ultimately show "t' = t" using uniq [of t' t] t'(2) by simp
    qed
    finally show ?thesis .
  next
    case False
    then have nb: "t \<notin> set ts" by force
    have "t \<in> triples ?b' \<longleftrightarrow> t \<in> triples b0"
      unfolding triples_iff [OF ok'] triples_iff [OF ok0] import_other [OF False] ..
    with nb show ?thesis by simp
  qed
  then show ?thesis by blast
qed

lemma keys_ok_empty_bank: "keys_ok empty_bank"
  by (simp add: keys_ok_def empty_bank_def)

lemma keys_ok_update:
  assumes "keys_ok b" and "fact_id (fact e) = k"
  shows "distinct (map fst (AList.update k e (memory b))) \<and>
         list_all (\<lambda>(k, e). fact_id (fact e) = k) (AList.update k e (memory b))"
  using assms set_update_subset [of k e "memory b"]
  by (auto simp: keys_ok_def distinct_update list_all_iff)

lemma keys_ok_storeFact: "keys_ok b \<Longrightarrow> keys_ok (storeFact now f rel b)"
  using keys_ok_update [of b _ "fact_id f"]
  by (simp add: keys_ok_def memory_storeFact)

lemma keys_ok_updateFactConfidence:
  assumes "keys_ok b"
  shows "keys_ok (updateFactConfidence now k c v b)"
proof (cases "map_of (memory b) k")
  case None
  with assms show ?thesis by (simp add: updateFactConfidence_def)
next
  case (Some e)
  then have "(k, e) \<in> set (memory b)" by (rule map_of_SomeD)
  with assms have "fact_id (fact e) = k" by (auto simp: keys_ok_def list_all_iff)
  with keys_ok_update [OF assms, of _ k] Some show ?thesis
    by (simp add: keys_ok_def updateFactConfidence_def)
qed

lemma keys_ok_resolveConflict: "keys_ok b \<Longrightarrow> keys_ok (resolveConflict now ci choice b)"
  by (cases choice) (simp_all add: keys_ok_storeFact keys_ok_updateFactConfidence)

lemma keys_ok_importKnowledge: "keys_ok b \<Longrightarrow> keys_ok (importKnowledge now knowledge b)"
  unfolding importKnowledge_flat by (rule keys_ok_import)

lemma keys_ok_cleanup:
  assumes "keys_ok b"
  shows "keys_ok (cleanup now minConfidence maxAge b)"
proof -
  from assms have d: "distinct (map fst (memory b))" by (simp add: keys_ok_def)
  show ?thesis
    unfolding keys_ok_def memory_cleanup [OF d]
    using assms by (auto simp: keys_ok_def list_all_iff distinct_map_filter)
qed

text \<open>
  What a round trip keeps: into the same bank every triple, into an empty bank the
  triples whose id is not \<open>__proto__\<close> and whose category names no inherited property.
\<close>

lemma round_trip_keeps_ordinary_triples:
  assumes "keys_ok b"
    and "list_all (\<lambda>ke. category (fact (snd ke)) \<notin> set object_prototype_names) (memory b)"
  shows "triples (importKnowledge now (exportKnowledge b) b) = triples b"
    and "triples (importKnowledge now (exportKnowledge b) empty_bank)
           = {t \<in> triples b. fst (snd t) \<noteq> ''__proto__''}"
proof -
  have k: "keys_ok b"
    by (rule assms(1))
  have "fst t \<notin> set object_prototype_names" if "t \<in> triples b" for t
    using that assms(2) by (auto simp: triples_def triple_of_def list_all_iff)
  then have o: "{t \<in> triples b. ordinary_triple t} = {t \<in> triples b. fst (snd t) \<noteq> ''__proto__''}"
    by (auto simp: ordinary_triple_def)
  have ex: "set (flat_entries (exportKnowledge b)) = {t \<in> triples b. ordinary_triple t}"
    unfolding set_flat_entries by (rule flat_export [OF k])
  then have sub: "set (flat_entries (exportKnowledge b)) \<subseteq> triples b"
    by blast
  from import_triples [OF k k sub, of now] sub
  show "triples (importKnowledge now (exportKnowledge b) b) = triples b"
    unfolding importKnowledge_flat by blast
  have e: "triples empty_bank = {}"
    by (simp add: triples_def empty_bank_def)
  from import_triples [OF k keys_ok_empty_bank sub, of now] ex e
  have "triples (importKnowledge now (exportKnowledge b) empty_bank)
           = {t \<in> triples b. ordinary_triple t}"
    unfolding importKnowledge_flat by simp
  then show "triples (importKnowledge now (exportKnowledge b) empty_bank)
           = {t \<in> triples b. fst (snd t) \<noteq> ''__proto__''}"
    unfolding o .
qed

text \<open>Every fact that \<open>importKnowledge\<close> stores has confidence 0.8 and is verified.\<close>

lemma importKnowledge_confidence:
  assumes "(cat, inner) \<in> set knowledge" and "(key, c) \<in> set inner"
  shows "\<exists>e. map_of (memory (importKnowledge now knowledge b)) key = Some e \<and>
           fact_id (fact e) = key \<and>
           confidence (fact e) = 0.8 \<and> verified (fact e) \<and>
           entry_confidence e = 0.8 \<and> entry_verified e"
proof -
  from assms have "(cat, key, c) \<in> set (flat_entries knowledge)"
    unfolding set_flat_entries by (auto simp: flat_def)
  then have "key \<in> (\<lambda>t. fst (snd t)) ` set (flat_entries knowledge)"
    by force
  from import_hit [OF this, of now b] obtain t where
    t: "fst (snd t) = key"
       "map_of (memory (importKnowledge now knowledge b)) key = Some (imported_entry now t)"
    unfolding importKnowledge_flat by blast
  show ?thesis
    unfolding t(2) using t(1)
    by (simp add: imported_entry_def importedFact_def)
qed

lemma object_entries_plain:
  assumes "list_all (\<lambda>kv. \<not> is_array_index (fst kv)) obj"
  shows "object_entries obj = obj"
proof -
  from assms have "filter (\<lambda>kv. is_array_index (fst kv)) obj = []"
    by (auto simp: filter_empty_conv list_all_iff)
  moreover from assms have "filter (\<lambda>kv. \<not> is_array_index (fst kv)) obj = obj"
    by (auto simp: filter_id_conv list_all_iff)
  ultimately show ?thesis by (simp add: object_entries_def)
qed

lemma not_index_plans: "\<not> is_array_index ''plans''"
  by (simp add: is_array_index_def is_digit_def)

lemma not_index_proto: "\<not> is_array_index ''__proto__''"
  by (simp add: is_array_index_def is_digit_def)

lemma memory_proto_bank:
  "memory proto_bank =
     [(''__proto__'', imported_entry 1700000000000 (''plans'', ''__proto__'', ''Date on friday''))]"
  by (simp add: proto_bank_def proto_snapshot_def importKnowledge_def object_entries_plain
      not_index_plans not_index_proto memory_storeFact empty_bank_def imported_entry_def
      importedFact_def)

text \<open>
  C4 fails on the code: \<open>exported[category][id] = content\<close> stores nothing when the id
  is \<open>__proto__\<close>. The bank that imported the snapshot
  \<open>{"plans": {"__proto__": "Date on friday"}}\<close> holds the triple
  (\<open>plans\<close>, \<open>__proto__\<close>, \<open>Date on friday\<close>); its export is \<open>{"plans": {}}\<close>, and the
  import of that export restores no triple.
\<close>

theorem round_trip_loses_proto_id:
  "keys_ok proto_bank \<and>
   triples proto_bank = {(''plans'', ''__proto__'', ''Date on friday'')} \<and>
   exportKnowledge proto_bank = [(''plans'', [])] \<and>
   triples (importKnowledge 1700000000001 (exportKnowledge proto_bank) empty_bank) = {}"
proof -
  have k: "keys_ok proto_bank"
    by (simp add: keys_ok_def memory_proto_bank imported_entry_def importedFact_def)
  have t: "triples proto_bank = {(''plans'', ''__proto__'', ''Date on friday'')}"
    by (simp add: triples_def memory_proto_bank triple_of_imported)
  have e: "exportKnowledge proto_bank = [(''plans'', [])]"
    by (simp add: exportKnowledge_def memory_proto_bank export_entry_def imported_entry_def
        importedFact_def object_set_def object_prototype_names_def)
  have "triples (importKnowledge 1700000000001 [(''plans'', [])] empty_bank) = {}"
    by (simp add: importKnowledge_def object_entries_plain not_index_plans triples_def
        empty_bank_def)
  with k t e show ?thesis by simp
qed

section \<open>Properties of the Fact Extractor\<close>

lemma sam_no_date: "match0 True date_pattern sam_message = None"
  by code_simp

lemma sam_no_outfit: "match0 True outfit_pattern sam_message = None"
  by code_simp

lemma sam_no_emotion: "match0 True emotion_pattern sam_message = None"
  by code_simp

lemma sam_no_place: "match0 True place_pattern sam_message = None"
  by code_simp

lemma vahant_date:
  "match0 True date_pattern vahant_message = Some ''going on a date with Vahant''"
  by code_simp

lemma vahant_no_outfit: "match0 True outfit_pattern vahant_message = None"
  by code_simp

lemma vahant_no_emotion: "match0 True emotion_pattern vahant_message = None"
  by code_simp

lemma vahant_no_place: "match0 True place_pattern vahant_message = None"
  by code_simp

text \<open>
  C1, as amended: for the message \<open>I'm going on a date with Vahant tomorrow\<close> the
  fallback path returns exactly one fact; its category is \<open>plans\<close>, its confidence is
  0.7 and its content, \<open>Plans to go on date with Vahant\<close>, contains \<open>date\<close> and
  \<open>Vahant\<close>.
\<close>

theorem fallback_date_with_vahant:
  "\<exists>f. facts (fst (fallbackFactExtraction now n vahant_message)) = [f] \<and>
       category f = ''plans'' \<and> confidence f = 0.7 \<and>
       content f = ''Plans to go on date with Vahant'' \<and>
       includes_str (content f) ''date'' \<and> includes_str (content f) ''Vahant''"
  by (simp add: fallbackFactExtraction_def patterns_def try_pattern_def generateFactId_def
      date_template_def vahant_date vahant_no_outfit vahant_no_emotion vahant_no_place)

text \<open>
  The claim as it was stated fails: the date pattern asks for \<open>vahant\<close> or \<open>with him\<close>
  after the word \<open>date\<close>, and no other pattern matches, so the message with \<open>Sam\<close>
  gives no fact at all.
\<close>

theorem fallback_date_with_sam_no_fact:
  "facts (fst (fallbackFactExtraction 0 0 sam_message)) = [] \<and>
   facts (fst (extractFacts 0 0 None sam_message)) = []"
proof -
  have "\<not> isSimpleMessage sam_message"
    by code_simp
  then show ?thesis
    by (simp add: extractFacts_def fallbackFactExtraction_def patterns_def try_pattern_def
        sam_no_date sam_no_outfit sam_no_emotion sam_no_place)
qed

text \<open>
  C2 fails on the code: a confidence above 1 in the reply of the model passes the test
  \<open>confidence >= 0.5\<close> of \<open>parseFactExtractionResponse\<close>, and \<open>storeFact\<close> copies it into
  the entry as it is.
\<close>

theorem unclamped_confidence_is_stored:
  "facts (fst (parseFactExtractionResponse 5 0 overconfident_reply ''I love tea''))
     = [overconfident_fact] \<and>
   map_option entry_confidence
     (map_of (memory (storeFact 5 overconfident_fact [] empty_bank)) ''fact_5_1'') = Some 1.5 \<and>
   \<not> (1.5 \<le> (1::real))"
  by (simp add: parseFactExtractionResponse_def overconfident_reply_def parse_fact_def
      generateFactId_def overconfident_fact_def memory_storeFact empty_bank_def
      string_of_int_5 string_of_nat.simps digit_char_def)

section \<open>Properties of the Conflict Resolver\<close>

lemma emotion_contradiction_props:
  "emotion_contradiction cid nf ef nc ec groups = Some c \<Longrightarrow>
     conflictType c = contradiction \<and> suggestedResolution c = res_clarify \<and> existingFact c = ef"
  by (induction groups) (auto simp: Let_def split: if_splits)

lemma checkContradiction_props:
  "checkContradiction cid nf ef = Some c \<Longrightarrow>
     conflictType c = contradiction \<and> suggestedResolution c = res_clarify \<and> existingFact c = ef"
  unfolding checkContradiction_def Let_def
  by (auto simp: relationship_contradiction_def preference_contradiction_def Let_def
      dest: emotion_contradiction_props split: option.splits if_splits list.splits)

lemma checkTemporalConflict_props:
  "checkTemporalConflict cid nf ef = Some c \<Longrightarrow>
     conflictType c = temporal \<and> severity c = medium \<and> suggestedResolution c = res_clarify \<and> existingFact c = ef"
  unfolding checkTemporalConflict_def Let_def
  by (auto split: option.splits if_splits)

lemma checkInconsistency_needs_confidence:
  "confidence ef \<le> 0.8 \<Longrightarrow> checkInconsistency cid nf ef = None"
  by (simp add: checkInconsistency_def)

lemma checkAmbiguity_props:
  "checkAmbiguity cid nf ef = Some c \<Longrightarrow>
     conflictType c = ambiguity \<and> severity c = low \<and> suggestedResolution c = res_clarify \<and> existingFact c = ef"
  unfolding checkAmbiguity_def Let_def
  by (auto split: if_splits)

lemma analyzeFactConflict_ok:
  assumes "analyzeFactConflict now n nf existingContent existingKey = Some c"
  shows "conflict_ok c"
proof -
  let ?ef = "mockExistingFact now nf existingContent existingKey"
  let ?cid = "fst (generateConflictId now n)"
  have conf: "confidence ?ef = 0.8" by (simp add: mockExistingFact_def)
  have inc: "checkInconsistency ?cid nf ?ef = None"
    by (rule checkInconsistency_needs_confidence) (simp add: conf)
  from assms consider
      "checkContradiction ?cid nf ?ef = Some c"
    | "checkTemporalConflict ?cid nf ?ef = Some c"
    | "checkAmbiguity ?cid nf ?ef = Some c"
    unfolding analyzeFactConflict_def Let_def inc
    by (auto split: option.splits)
  then show ?thesis
  proof cases
    case 1
    from checkContradiction_props [OF 1] conf show ?thesis by (simp add: conflict_ok_def)
  next
    case 2
    from checkTemporalConflict_props [OF 2] conf show ?thesis by (simp add: conflict_ok_def)
  next
    case 3
    from checkAmbiguity_props [OF 3] conf show ?thesis by (simp add: conflict_ok_def)
  qed
qed

lemma detect_pair_ok: "state_ok st \<Longrightarrow> state_ok (detect_pair now nf st kc)"
proof (cases "analyzeFactConflict now (counter st) nf (snd kc) (fst kc)")
  case None
  assume "state_ok st"
  with None show ?thesis by (simp add: detect_pair_def)
next
  case (Some c)
  assume ok: "state_ok st"
  from analyzeFactConflict_ok [OF Some] have "conflict_ok c" .
  with ok Some show ?thesis
    by (simp add: detect_pair_def state_ok_def conflict_ok_def)
qed

lemma detect_fact_ok: "state_ok st \<Longrightarrow> state_ok (detect_fact now ex st nf)"
proof -
  have "state_ok st \<Longrightarrow> state_ok (foldl (detect_pair now nf) st kcs)" for kcs
    by (induction kcs arbitrary: st) (auto simp: detect_pair_ok)
  then show "state_ok st \<Longrightarrow> state_ok (detect_fact now ex st nf)"
    by (simp add: detect_fact_def)
qed

lemma detect_facts_ok: "state_ok st \<Longrightarrow> state_ok (foldl (detect_fact now ex) st nfs)"
  by (induction nfs arbitrary: st) (auto simp: detect_fact_ok)

lemma checkInconsistency_props:
  "checkInconsistency cid nf ef = Some c \<Longrightarrow>
     conflictType c = inconsistency \<and> suggestedResolution c = res_merge \<and> confidence ef > 0.8"
  unfolding checkInconsistency_def Let_def
  by (auto split: if_splits)

text \<open>
  C10: no conflict in the result of \<open>detectConflicts\<close> has the type \<open>inconsistency\<close>, and
  the list \<open>autoResolvable\<close> is empty. The existing fact made from the snapshot has
  confidence exactly 0.8, the inconsistency detector finds nothing unless the existing
  fact's confidence is above 0.8, it is the only detector that suggests \<open>merge\<close>, and
  the three other detectors suggest \<open>clarify\<close>, so that none suggests \<open>update\<close>.
\<close>

theorem detectConflicts_never_inconsistency:
  "(\<forall>c \<in> set (conflicts (fst (detectConflicts now n newFacts existingFacts))).
      conflictType c \<noteq> inconsistency \<and> suggestedResolution c \<noteq> res_update \<and>
      suggestedResolution c \<noteq> res_merge \<and> confidence (existingFact c) = 0.8) \<and>
   autoResolvable (fst (detectConflicts now n newFacts existingFacts)) = [] \<and>
   confidence (mockExistingFact now nf existingContent existingKey) = 0.8 \<and>
   (\<forall>cid nf ef. confidence ef \<le> 0.8 \<longrightarrow> checkInconsistency cid nf ef = None) \<and>
   (\<forall>cid nf ef c. checkInconsistency cid nf ef = Some c \<longrightarrow>
      conflictType c = inconsistency \<and> suggestedResolution c = res_merge) \<and>
   (\<forall>cid nf ef c.
      checkContradiction cid nf ef = Some c \<or> checkTemporalConflict cid nf ef = Some c \<or>
      checkAmbiguity cid nf ef = Some c \<longrightarrow>
      conflictType c \<noteq> inconsistency \<and> suggestedResolution c = res_clarify)"
proof -
  have "state_ok \<lparr>found = [], attention = [], resolvable = [], counter = n\<rparr>"
    by (simp add: state_ok_def)
  from detect_facts_ok [OF this, of now existingFacts newFacts]
  have ok: "state_ok (foldl (detect_fact now existingFacts)
              \<lparr>found = [], attention = [], resolvable = [], counter = n\<rparr> newFacts)" .
  have p1: "\<forall>c \<in> set (conflicts (fst (detectConflicts now n newFacts existingFacts))).
      conflictType c \<noteq> inconsistency \<and> suggestedResolution c \<noteq> res_update \<and>
      suggestedResolution c \<noteq> res_merge \<and> confidence (existingFact c) = 0.8"
    using ok by (auto simp: detectConflicts_def Let_def state_ok_def list_all_iff conflict_ok_def)
  have p2: "autoResolvable (fst (detectConflicts now n newFacts existingFacts)) = []"
    using ok by (simp add: detectConflicts_def Let_def state_ok_def)
  have p3: "confidence (mockExistingFact now nf existingContent existingKey) = 0.8"
    by (simp add: mockExistingFact_def)
  have p4: "\<forall>cid nf ef. confidence ef \<le> 0.8 \<longrightarrow> checkInconsistency cid nf ef = None"
    by (simp add: checkInconsistency_needs_confidence)
  have p5: "\<forall>cid nf ef c. checkInconsistency cid nf ef = Some c \<longrightarrow>
      conflictType c = inconsistency \<and> suggestedResolution c = res_merge"
  proof (intro allI impI)
    fix cid nf ef c
    assume "checkInconsistency cid nf ef = Some c"
    from checkInconsistency_props [OF this]
    show "conflictType c = inconsistency \<and> suggestedResolution c = res_merge" by simp
  qed
  have p6: "\<forall>cid nf ef c.
      checkContradiction cid nf ef = Some c \<or> checkTemporalConflict cid nf ef = Some c \<or>
      checkAmbiguity cid nf ef = Some c \<longrightarrow>
      conflictType c \<noteq> inconsistency \<and> suggestedResolution c = res_clarify"
  proof (intro allI impI)
    fix cid nf ef c
    assume "checkContradiction cid nf ef = Some c \<or> checkTemporalConflict cid nf ef = Some c \<or>
      checkAmbiguity cid nf ef = Some c"
    then consider "checkContradiction cid nf ef = Some c"
      | "checkTemporalConflict cid nf ef = Some c" | "checkAmbiguity cid nf ef = Some c"
      by blast
    then show "conflictType c \<noteq> inconsistency \<and> suggestedResolution c = res_clarify"
    proof cases
      case 1
      from checkContradiction_props [OF 1] show ?thesis by simp
    next
      case 2
      from checkTemporalConflict_props [OF 2] show ?thesis by simp
    next
      case 3
      from checkAmbiguity_props [OF 3] show ?thesis by simp
    qed
  qed
  show ?thesis
    by (rule conjI [OF p1 conjI [OF p2 conjI [OF p3 conjI [OF p4 conjI [OF p5 p6]]]]])
qed

lemma spicy_detect:
  "fst (detectConflicts 2 0 [hates_spicy] [(''preferences'', [(''fact_1_1'', ''I love spicy food'')])])
   = \<lparr>conflicts = [spicy_conflict], hasConflicts = True,
      needsImmediateAttention = [spicy_conflict], autoResolvable = []\<rparr>"
  by code_simp

lemma spicy_check:
  "checkContradiction ''conflict_2_1'' hates_spicy
     (mockExistingFact 2 hates_spicy ''I love spicy food'' ''fact_1_1'') = Some spicy_conflict"
  by code_simp

lemma tea_similarity: "calculateContentSimilarity ''likes green tea'' ''likes black tea'' = 1 / 2"
  by code_simp

lemma unsure_check:
  "checkInconsistency ''conflict_2_1'' unsure_fact sure_fact =
     Some \<lparr>conflictId = ''conflict_2_1'', newFact = unsure_fact, existingFact = sure_fact,
            conflictType = inconsistency, severity = low,
            clarificationQuestion =
              ''I want to make sure I understand correctly - you mentioned something similar before. Can you clarify?'',
            suggestedResolution = res_merge\<rparr>"
proof -
  have "content unsure_fact = ''likes green tea''" "content sure_fact = ''likes black tea''"
    "confidence unsure_fact < 0.6" "confidence sure_fact > 0.8"
    by (simp_all add: unsure_fact_def sure_fact_def)
  then show ?thesis
    by (simp add: checkInconsistency_def tea_similarity)
qed

theorem detectConflicts_never_inconsistency_witness:
  "spicy_conflict \<in> set (conflicts (fst (detectConflicts 2 0 [hates_spicy]
       [(''preferences'', [(''fact_1_1'', ''I love spicy food'')])]))) \<and>
   conflictType spicy_conflict \<noteq> inconsistency \<and>
   suggestedResolution spicy_conflict \<noteq> res_merge \<and>
   confidence (existingFact spicy_conflict) = 0.8 \<and>
   autoResolvable (fst (detectConflicts 2 0 [hates_spicy]
       [(''preferences'', [(''fact_1_1'', ''I love spicy food'')])])) = [] \<and>
   confidence likes_tea \<le> 0.8 \<and>
   checkInconsistency ''conflict_2_1'' hates_tea likes_tea = None \<and>
   checkContradiction ''conflict_2_1'' hates_spicy
     (mockExistingFact 2 hates_spicy ''I love spicy food'' ''fact_1_1'') = Some spicy_conflict \<and>
   suggestedResolution spicy_conflict = res_clarify \<and>
   suggestedResolution (the (checkInconsistency ''conflict_2_1'' unsure_fact sure_fact)) = res_merge"
proof -
  have m: "spicy_conflict \<in> set (conflicts (fst (detectConflicts 2 0 [hates_spicy]
       [(''preferences'', [(''fact_1_1'', ''I love spicy food'')])])))"
    by (simp add: spicy_detect)
  have c: "confidence likes_tea \<le> 0.8"
    by (simp add: likes_tea_def)
  note t = detectConflicts_never_inconsistency [of 2 0 "[hates_spicy]"
      "[(''preferences'', [(''fact_1_1'', ''I love spicy food'')])]"]
  from t m have "conflictType spicy_conflict \<noteq> inconsistency \<and>
     suggestedResolution spicy_conflict \<noteq> res_merge \<and>
     confidence (existingFact spicy_conflict) = 0.8"
    by blast
  moreover from t have "autoResolvable (fst (detectConflicts 2 0 [hates_spicy]
       [(''preferences'', [(''fact_1_1'', ''I love spicy food'')])])) = []"
    by blast
  moreover from t c have "checkInconsistency ''conflict_2_1'' hates_tea likes_tea = None"
    by blast
  moreover from t spicy_check have "suggestedResolution spicy_conflict = res_clarify"
    by blast
  moreover from t unsure_check
  have "suggestedResolution (the (checkInconsistency ''conflict_2_1'' unsure_fact sure_fact)) = res_merge"
    by (metis option.sel)
  ultimately show ?thesis using m c spicy_check by blast
qed

subsection \<open>Preference polarity\<close>

lemma lower_char_space: "lower_char c = CHR '' '' \<longleftrightarrow> c = CHR '' ''"
  unfolding lower_char_def capital_letters_def small_letters_def by (simp split: if_splits)

lemma findCommonTerms_nonempty:
  assumes "w \<in> set (split_on CHR '' '' t1)" "w \<in> set (split_on CHR '' '' t2)" "3 < length w"
  shows "findCommonTerms t1 t2 \<noteq> []"
proof -
  from assms have "w \<in> set (findCommonTerms t1 t2)"
    by (simp add: findCommonTerms_def)
  then show ?thesis by auto
qed

lemma startsWith_lower:
  "startsWith s w \<Longrightarrow> startsWith (toLowerCase s) (toLowerCase w)"
  unfolding toLowerCase_def
  by (induction w arbitrary: s) (auto split: list.splits)

lemma includes_str_lower:
  "includes_str s w \<Longrightarrow> includes_str (toLowerCase s) (toLowerCase w)"
proof (induction s)
  case Nil
  then show ?case by (simp add: toLowerCase_def)
next
  case (Cons c cs)
  from Cons.prems have "startsWith (c # cs) w \<or> includes_str cs w" by simp
  then show ?case
  proof
    assume "startsWith (c # cs) w"
    from startsWith_lower [OF this] show ?thesis by (simp add: toLowerCase_def)
  next
    assume "includes_str cs w"
    from Cons.IH [OF this] show ?thesis by (simp add: toLowerCase_def)
  qed
qed

lemma split_on_lower:
  "split_on CHR '' '' (toLowerCase s) = map toLowerCase (split_on CHR '' '' s)"
  unfolding toLowerCase_def
  by (induction s) (auto simp: lower_char_space split: list.splits)

lemma some_included_lower:
  assumes "list_all (\<lambda>w. toLowerCase w = w) ws" and "some_included ws s"
  shows "some_included ws (toLowerCase s)"
proof -
  from assms(2) obtain w where w: "w \<in> set ws" "includes_str s w"
    by (auto simp: some_included_def list_ex_iff)
  from assms(1) w(1) have "toLowerCase w = w" by (simp add: list_all_iff)
  with includes_str_lower [OF w(2)] w(1) show ?thesis
    by (auto simp: some_included_def list_ex_iff)
qed

lemma common_word_lower:
  assumes "w \<in> set (split_on CHR '' '' s)"
  shows "toLowerCase w \<in> set (split_on CHR '' '' (toLowerCase s))"
    and "length (toLowerCase w) = length w"
proof -
  from assms show "toLowerCase w \<in> set (split_on CHR '' '' (toLowerCase s))"
    unfolding split_on_lower by simp
  show "length (toLowerCase w) = length w"
    by (simp add: toLowerCase_def)
qed

lemma emotion_contradiction_newFact:
  "emotion_contradiction cid nf ef nc ec groups = Some c \<Longrightarrow> newFact c = nf"
  by (induction groups) (auto simp: Let_def split: if_splits)

lemma checkContradiction_newFact:
  "checkContradiction cid nf ef = Some c \<Longrightarrow> newFact c = nf"
  unfolding checkContradiction_def Let_def
  by (auto simp: relationship_contradiction_def preference_contradiction_def Let_def
      dest: emotion_contradiction_newFact split: option.splits if_splits list.splits)

lemma checkTemporalConflict_newFact:
  "checkTemporalConflict cid nf ef = Some c \<Longrightarrow> newFact c = nf"
  unfolding checkTemporalConflict_def Let_def
  by (auto split: option.splits if_splits)

lemma checkInconsistency_newFact:
  "checkInconsistency cid nf ef = Some c \<Longrightarrow> newFact c = nf \<and> existingFact c = ef"
  unfolding checkInconsistency_def Let_def
  by (auto split: if_splits)

lemma checkAmbiguity_newFact:
  "checkAmbiguity cid nf ef = Some c \<Longrightarrow> newFact c = nf"
  unfolding checkAmbiguity_def Let_def
  by (auto split: if_splits)

lemma analyzeFactConflict_facts:
  assumes "analyzeFactConflict now m nf c0 k = Some ci"
  shows "newFact ci = nf \<and> existingFact ci = mockExistingFact now nf c0 k"
proof -
  let ?ef = "mockExistingFact now nf c0 k"
  let ?cid = "fst (generateConflictId now m)"
  from assms consider
      "checkContradiction ?cid nf ?ef = Some ci"
    | "checkTemporalConflict ?cid nf ?ef = Some ci"
    | "checkInconsistency ?cid nf ?ef = Some ci"
    | "checkAmbiguity ?cid nf ?ef = Some ci"
    unfolding analyzeFactConflict_def Let_def
    by (auto split: option.splits)
  then show ?thesis
  proof cases
    case 1
    from checkContradiction_props [OF 1] checkContradiction_newFact [OF 1] show ?thesis by simp
  next
    case 2
    from checkTemporalConflict_props [OF 2] checkTemporalConflict_newFact [OF 2]
    show ?thesis by simp
  next
    case 3
    from checkInconsistency_newFact [OF 3] show ?thesis by simp
  next
    case 4
    from checkAmbiguity_props [OF 4] checkAmbiguity_newFact [OF 4] show ?thesis by simp
  qed
qed

lemma about_pair_analyzeFactConflict:
  assumes "analyzeFactConflict now m nf' c' k' = Some ci"
  shows "about_pair nf key c0 ci \<longleftrightarrow> nf' = nf \<and> k' = key \<and> c' = c0"
  using analyzeFactConflict_facts [OF assms]
  by (auto simp: about_pair_def mockExistingFact_def)

lemma preference_pair_conflict:
  assumes cat: "category nf = ''preferences''"
    and pol: "(some_included likeWords (toLowerCase (content nf)) \<and>
               some_included dislikeWords (toLowerCase existingContent)) \<or>
              (some_included dislikeWords (toLowerCase (content nf)) \<and>
               some_included likeWords (toLowerCase existingContent))"
    and common: "w \<in> set (split_on CHR '' '' (toLowerCase (content nf)))"
                "w \<in> set (split_on CHR '' '' (toLowerCase existingContent))"
                "3 < length w"
  shows "\<exists>c. analyzeFactConflict now m nf existingContent key = Some c \<and>
             conflictType c = contradiction \<and> severity c = medium"
proof -
  let ?ef = "mockExistingFact now nf existingContent key"
  let ?cid = "fst (generateConflictId now m)"
  from findCommonTerms_nonempty [OF common]
  obtain term0 rest where terms:
    "findCommonTerms (toLowerCase (content nf)) (toLowerCase existingContent) = term0 # rest"
    by (cases "findCommonTerms (toLowerCase (content nf)) (toLowerCase existingContent)") auto
  define c where "c = \<lparr>conflictId = ?cid, newFact = nf, existingFact = ?ef,
                         conflictType = contradiction, severity = medium,
                         clarificationQuestion =
                           ''I'm confused - do you like or dislike '' @ term0 @
                           ''? You've mentioned both!'',
                         suggestedResolution = res_clarify\<rparr>"
  have ef: "content ?ef = existingContent"
    by (simp add: mockExistingFact_def)
  have "preference_contradiction ?cid nf ?ef (toLowerCase (content nf)) (toLowerCase existingContent) = Some c"
    using pol terms by (auto simp: preference_contradiction_def Let_def c_def)
  then have "checkContradiction ?cid nf ?ef = Some c"
    using cat by (simp add: checkContradiction_def Let_def ef)
  then have "analyzeFactConflict now m nf existingContent key = Some c"
    by (simp add: analyzeFactConflict_def Let_def)
  then show ?thesis
    by (intro exI [of _ c]) (simp add: c_def)
qed

lemma found_detect_pair:
  "found (detect_pair now nf st kc) =
     found st @ (case analyzeFactConflict now (counter st) nf (snd kc) (fst kc) of
                   None \<Rightarrow> [] | Some ci \<Rightarrow> [ci])"
  by (simp add: detect_pair_def split: option.splits)

lemma attention_detect_pair:
  "attention (detect_pair now nf st kc) =
     attention st @ (case analyzeFactConflict now (counter st) nf (snd kc) (fst kc) of
                   None \<Rightarrow> []
                 | Some ci \<Rightarrow> if severity ci = high \<or> conflictType ci = contradiction
                              then [ci] else [])"
  by (simp add: detect_pair_def split: option.splits)

lemma count_list_insort_key:
  "count_list (insort_key f a xs) x = count_list (a # xs) x"
  by (induction xs) auto

lemma count_list_sort_key: "count_list (sort_key f xs) x = count_list xs x"
  by (induction xs) (auto simp: count_list_insort_key)

lemma count_list_filter_split:
  "count_list (filter P xs) x + count_list (filter (\<lambda>y. \<not> P y) xs) x = count_list xs x"
  by (induction xs) auto

lemma count_list_object_entries: "count_list (object_entries obj) x = count_list obj x"
  unfolding object_entries_def
  by (simp add: count_list_sort_key count_list_filter_split)

lemma count_list_distinct: "distinct xs \<Longrightarrow> x \<in> set xs \<Longrightarrow> count_list xs x = 1"
  by (induction xs) auto

lemma detect_pair_about:
  assumes q: "\<And>m. \<exists>c. analyzeFactConflict now m nf c0 key = Some c \<and>
             conflictType c = contradiction \<and> severity c = medium"
  shows "length (filter (about_pair nf key c0) (found (detect_pair now nf' st kc)))
           = length (filter (about_pair nf key c0) (found st)) +
             (if nf' = nf \<and> kc = (key, c0) then 1 else 0)"
    and "pair_conflict_ok nf key c0 st \<Longrightarrow> pair_conflict_ok nf key c0 (detect_pair now nf' st kc)"
proof -
  let ?r = "analyzeFactConflict now (counter st) nf' (snd kc) (fst kc)"
  show "length (filter (about_pair nf key c0) (found (detect_pair now nf' st kc)))
           = length (filter (about_pair nf key c0) (found st)) +
             (if nf' = nf \<and> kc = (key, c0) then 1 else 0)"
  proof (cases ?r)
    case None
    have "\<not> (nf' = nf \<and> kc = (key, c0))"
    proof
      assume "nf' = nf \<and> kc = (key, c0)"
      with q [of "counter st"] None show False by auto
    qed
    with None show ?thesis by (simp add: found_detect_pair)
  next
    case (Some ci)
    from about_pair_analyzeFactConflict [OF Some, of nf key c0]
    have "about_pair nf key c0 ci \<longleftrightarrow> nf' = nf \<and> kc = (key, c0)"
      by (cases kc) auto
    with Some show ?thesis by (simp add: found_detect_pair)
  qed
  assume ok: "pair_conflict_ok nf key c0 st"
  show "pair_conflict_ok nf key c0 (detect_pair now nf' st kc)"
  proof (cases ?r)
    case None
    with ok show ?thesis by (simp add: detect_pair_def)
  next
    case (Some ci)
    have new: "about_pair nf key c0 ci \<longrightarrow> conflictType ci = contradiction \<and> severity ci = medium"
    proof
      assume "about_pair nf key c0 ci"
      with about_pair_analyzeFactConflict [OF Some, of nf key c0]
      have "nf' = nf" "fst kc = key" "snd kc = c0" by auto
      with Some q [of "counter st"]
      show "conflictType ci = contradiction \<and> severity ci = medium" by auto
    qed
    from ok have old: "\<forall>c \<in> set (found st). about_pair nf key c0 c \<longrightarrow>
        conflictType c = contradiction \<and> severity c = medium \<and> c \<in> set (attention st)"
      by (simp add: pair_conflict_ok_def list_all_iff)
    show ?thesis
      unfolding pair_conflict_ok_def list_all_iff found_detect_pair attention_detect_pair
      using Some new old by auto
  qed
qed

lemma detect_fact_about:
  assumes q: "\<And>m. \<exists>c. analyzeFactConflict now m nf c0 key = Some c \<and>
             conflictType c = contradiction \<and> severity c = medium"
  shows "length (filter (about_pair nf key c0) (found (detect_fact now ex st nf')))
           = length (filter (about_pair nf key c0) (found st)) +
             (if nf' = nf
              then count_list (case map_of ex (category nf) of None \<Rightarrow> [] | Some m \<Rightarrow> m) (key, c0)
              else 0)"
    and "pair_conflict_ok nf key c0 st \<Longrightarrow> pair_conflict_ok nf key c0 (detect_fact now ex st nf')"
proof -
  have len: "length (filter (about_pair nf key c0) (found (foldl (detect_pair now nf') st' kcs)))
           = length (filter (about_pair nf key c0) (found st')) +
             (if nf' = nf then count_list kcs (key, c0) else 0)" for st' kcs
    by (induction kcs arbitrary: st') (auto simp: detect_pair_about(1) [OF q])
  have inv: "pair_conflict_ok nf key c0 st' \<Longrightarrow>
       pair_conflict_ok nf key c0 (foldl (detect_pair now nf') st' kcs)" for st' kcs
    by (induction kcs arbitrary: st') (auto simp: detect_pair_about(2) [OF q])
  show "length (filter (about_pair nf key c0) (found (detect_fact now ex st nf')))
           = length (filter (about_pair nf key c0) (found st)) +
             (if nf' = nf
              then count_list (case map_of ex (category nf) of None \<Rightarrow> [] | Some m \<Rightarrow> m) (key, c0)
              else 0)"
    unfolding detect_fact_def Let_def len by (auto simp: count_list_object_entries)
  assume "pair_conflict_ok nf key c0 st"
  then show "pair_conflict_ok nf key c0 (detect_fact now ex st nf')"
    unfolding detect_fact_def Let_def by (rule inv)
qed

lemma detect_facts_about:
  assumes q: "\<And>m. \<exists>c. analyzeFactConflict now m nf c0 key = Some c \<and>
             conflictType c = contradiction \<and> severity c = medium"
  shows "length (filter (about_pair nf key c0) (found (foldl (detect_fact now ex) st nfs)))
           = length (filter (about_pair nf key c0) (found st)) +
             count_list nfs nf *
             count_list (case map_of ex (category nf) of None \<Rightarrow> [] | Some m \<Rightarrow> m) (key, c0)"
    and "pair_conflict_ok nf key c0 st \<Longrightarrow>
           pair_conflict_ok nf key c0 (foldl (detect_fact now ex) st nfs)"
proof -
  show "length (filter (about_pair nf key c0) (found (foldl (detect_fact now ex) st nfs)))
           = length (filter (about_pair nf key c0) (found st)) +
             count_list nfs nf *
             count_list (case map_of ex (category nf) of None \<Rightarrow> [] | Some m \<Rightarrow> m) (key, c0)"
    by (induction nfs arbitrary: st) (auto simp: detect_fact_about(1) [OF q])
  show "pair_conflict_ok nf key c0 st \<Longrightarrow>
           pair_conflict_ok nf key c0 (foldl (detect_fact now ex) st nfs)"
    by (induction nfs arbitrary: st) (auto simp: detect_fact_about(2) [OF q])
qed

text \<open>
  C7: a new fact of the category \<open>preferences\<close> and a snapshot content, one with a like
  word and the other with a dislike word, that share a word longer than 3 characters,
  give a conflict of type \<open>contradiction\<close> and severity \<open>medium\<close>. For every list of new
  facts and every snapshot, \<open>detectConflicts\<close> reports for that pair one such conflict
  for each time the fact is in the list and the entry is in the \<open>preferences\<close> object, so
  exactly one when the fact is once in the list and the entry is in the object; every
  conflict reported for the pair is such a contradiction and needs immediate attention.
\<close>

theorem preference_polarity_conflict:
  assumes cat: "category nf = ''preferences''"
    and pol: "(some_included likeWords (toLowerCase (content nf)) \<and>
               some_included dislikeWords (toLowerCase existingContent)) \<or>
              (some_included dislikeWords (toLowerCase (content nf)) \<and>
               some_included likeWords (toLowerCase existingContent))"
    and common: "w \<in> set (split_on CHR '' '' (toLowerCase (content nf)))"
                "w \<in> set (split_on CHR '' '' (toLowerCase existingContent))"
                "3 < length w"
  shows "(\<exists>c. analyzeFactConflict now n nf existingContent key = Some c \<and>
              conflictType c = contradiction \<and> severity c = medium \<and>
              about_pair nf key existingContent c) \<and>
         length (filter (about_pair nf key existingContent)
                   (conflicts (fst (detectConflicts now n newFacts existingFacts))))
           = count_list newFacts nf *
             count_list (case map_of existingFacts ''preferences'' of None \<Rightarrow> [] | Some m \<Rightarrow> m)
               (key, existingContent) \<and>
         (\<forall>c \<in> set (conflicts (fst (detectConflicts now n newFacts existingFacts))).
            about_pair nf key existingContent c \<longrightarrow>
              conflictType c = contradiction \<and> severity c = medium \<and>
              c \<in> set (needsImmediateAttention
                         (fst (detectConflicts now n newFacts existingFacts)))) \<and>
         (count_list newFacts nf = 1 \<and> map_of existingFacts ''preferences'' = Some bucket \<and>
          distinct (map fst bucket) \<and> (key, existingContent) \<in> set bucket \<longrightarrow>
            (\<exists>c. filter (about_pair nf key existingContent)
                    (conflicts (fst (detectConflicts now n newFacts existingFacts))) = [c] \<and>
                 conflictType c = contradiction \<and> severity c = medium))"
proof -
  let ?P = "about_pair nf key existingContent"
  let ?init = "\<lparr>found = [], attention = [], resolvable = [], counter = n\<rparr>"
  let ?st = "foldl (detect_fact now existingFacts) ?init newFacts"
  let ?cs = "conflicts (fst (detectConflicts now n newFacts existingFacts))"
  have q: "\<exists>c. analyzeFactConflict now m nf existingContent key = Some c \<and>
             conflictType c = contradiction \<and> severity c = medium" for m
    by (rule preference_pair_conflict [OF cat pol common])
  have cs: "?cs = found ?st"
    and att: "needsImmediateAttention (fst (detectConflicts now n newFacts existingFacts))
              = attention ?st"
    by (simp_all add: detectConflicts_def Let_def)
  from q [of n] obtain c where c: "analyzeFactConflict now n nf existingContent key = Some c"
    "conflictType c = contradiction" "severity c = medium"
    by blast
  from about_pair_analyzeFactConflict [OF c(1), of nf key existingContent]
  have p1: "\<exists>c. analyzeFactConflict now n nf existingContent key = Some c \<and>
              conflictType c = contradiction \<and> severity c = medium \<and> ?P c"
    using c by blast
  have p2: "length (filter ?P ?cs)
           = count_list newFacts nf *
             count_list (case map_of existingFacts ''preferences'' of None \<Rightarrow> [] | Some m \<Rightarrow> m)
               (key, existingContent)"
    unfolding cs using detect_facts_about(1) [OF q, of existingFacts ?init newFacts]
    by (simp add: cat)
  have "pair_conflict_ok nf key existingContent ?init"
    by (simp add: pair_conflict_ok_def)
  from detect_facts_about(2) [OF q this, of existingFacts newFacts]
  have p3: "\<forall>c \<in> set ?cs. ?P c \<longrightarrow>
              conflictType c = contradiction \<and> severity c = medium \<and>
              c \<in> set (needsImmediateAttention
                         (fst (detectConflicts now n newFacts existingFacts)))"
    unfolding cs att by (simp add: pair_conflict_ok_def list_all_iff)
  have p4: "count_list newFacts nf = 1 \<and> map_of existingFacts ''preferences'' = Some bucket \<and>
          distinct (map fst bucket) \<and> (key, existingContent) \<in> set bucket \<longrightarrow>
            (\<exists>c. filter ?P ?cs = [c] \<and> conflictType c = contradiction \<and> severity c = medium)"
  proof
    assume h: "count_list newFacts nf = 1 \<and> map_of existingFacts ''preferences'' = Some bucket \<and>
          distinct (map fst bucket) \<and> (key, existingContent) \<in> set bucket"
    then have "distinct bucket" by (simp add: distinct_map)
    with h have "count_list bucket (key, existingContent) = 1"
      by (simp add: count_list_distinct)
    with p2 h have "length (filter ?P ?cs) = 1" by simp
    then obtain c' where c': "filter ?P ?cs = [c']"
      by (cases "filter ?P ?cs") auto
    then have "c' \<in> set (filter ?P ?cs)" by simp
    then have "c' \<in> set ?cs" "?P c'" by auto
    with p3 have "conflictType c' = contradiction \<and> severity c' = medium" by blast
    with c' show "\<exists>c. filter ?P ?cs = [c] \<and> conflictType c = contradiction \<and> severity c = medium"
      by blast
  qed
  show ?thesis
    by (rule conjI [OF p1 conjI [OF p2 conjI [OF p3 p4]]])
qed

theorem preference_polarity_conflict_witness:
  "category hates_spicy = ''preferences'' \<and>
   some_included dislikeWords (toLowerCase (content hates_spicy)) \<and>
   some_included likeWords (toLowerCase ''I love spicy food'') \<and>
   ''spicy'' \<in> set (split_on CHR '' '' (toLowerCase (content hates_spicy))) \<and>
   ''spicy'' \<in> set (split_on CHR '' '' (toLowerCase ''I love spicy food'')) \<and>
   3 < length ''spicy'' \<and>
   count_list two_new_facts hates_spicy = 1 \<and>
   map_of two_fact_snapshot ''preferences''
     = Some [(''fact_1_2'', ''likes black tea''), (''fact_1_1'', ''I love spicy food'')] \<and>
   distinct (map fst [(''fact_1_2'', ''likes black tea''), (''fact_1_1'', ''I love spicy food'')]) \<and>
   (''fact_1_1'', ''I love spicy food'')
     \<in> set [(''fact_1_2'', ''likes black tea''), (''fact_1_1'', ''I love spicy food'')] \<and>
   (\<exists>c. filter (about_pair hates_spicy ''fact_1_1'' ''I love spicy food'')
           (conflicts (fst (detectConflicts 1700000000000 0 two_new_facts two_fact_snapshot))) = [c] \<and>
        conflictType c = contradiction \<and> severity c = medium \<and>
        c \<in> set (needsImmediateAttention
                   (fst (detectConflicts 1700000000000 0 two_new_facts two_fact_snapshot))))"
proof -
  let ?bk = "[(''fact_1_2'', ''likes black tea''), (''fact_1_1'', ''I love spicy food'')]"
  let ?r = "fst (detectConflicts 1700000000000 0 two_new_facts two_fact_snapshot)"
  let ?P = "about_pair hates_spicy ''fact_1_1'' ''I love spicy food''"
  have cat: "category hates_spicy = ''preferences''"
    by (simp add: hates_spicy_def)
  have pol: "some_included dislikeWords (toLowerCase (content hates_spicy))"
    "some_included likeWords (toLowerCase ''I love spicy food'')"
    by code_simp+
  have common: "''spicy'' \<in> set (split_on CHR '' '' (toLowerCase (content hates_spicy)))"
    "''spicy'' \<in> set (split_on CHR '' '' (toLowerCase ''I love spicy food''))"
    "3 < length ''spicy''"
    by code_simp+
  have cnt: "count_list two_new_facts hates_spicy = 1"
    by (simp add: two_new_facts_def unsure_fact_def hates_spicy_def)
  have bk: "map_of two_fact_snapshot ''preferences'' = Some ?bk"
    by (simp add: two_fact_snapshot_def)
  have dist: "distinct (map fst ?bk)"
    by simp
  have mem: "(''fact_1_1'', ''I love spicy food'') \<in> set ?bk"
    by simp
  have pol': "(some_included likeWords (toLowerCase (content hates_spicy)) \<and>
               some_included dislikeWords (toLowerCase ''I love spicy food'')) \<or>
              (some_included dislikeWords (toLowerCase (content hates_spicy)) \<and>
               some_included likeWords (toLowerCase ''I love spicy food''))"
    using pol by blast
  note claim = preference_polarity_conflict [where key = "''fact_1_1''"
      and now = 1700000000000 and n = 0 and newFacts = two_new_facts
      and existingFacts = two_fact_snapshot and bucket = ?bk, OF cat pol' common]
  from claim cnt bk dist mem
  obtain c where c: "filter ?P (conflicts ?r) = [c]"
    "conflictType c = contradiction" "severity c = medium"
    by blast
  from c(1) have "c \<in> set (filter ?P (conflicts ?r))"
    by simp
  then have "c \<in> set (conflicts ?r)" "?P c"
    by simp_all
  with claim have "c \<in> set (needsImmediateAttention ?r)"
    by blast
  with c have "\<exists>c. filter ?P (conflicts ?r) = [c] \<and>
        conflictType c = contradiction \<and> severity c = medium \<and>
        c \<in> set (needsImmediateAttention ?r)"
    by blast
  with cat pol common cnt bk dist mem show ?thesis
    by blast
qed

section \<open>Properties of the Session Store\<close>

lemma session_messages_update:
  "session_messages sid (AList.update sid s ss) = messages s"
  by (simp add: session_messages_def update_conv')

lemma updateSession_skip:
  assumes "map_of ss sid = Some session" and "list_ex (same_message m) (messages session)"
  shows "updateSession now sid m e ss = ss"
  using assms by (simp add: updateSession_def)

lemma updateSession_append:
  assumes "map_of ss sid = Some session" and "\<not> list_ex (same_message m) (messages session)"
  shows "\<exists>session'. map_of (updateSession now sid m e ss) sid = Some session' \<and>
           messages session' = messages session @ [m]"
  using assms by (simp add: updateSession_def Let_def update_conv')

lemma updateSession_again:
  "updateSession now2 sid m e2 (updateSession now1 sid m e1 ss) = updateSession now1 sid m e1 ss"
proof (cases "map_of ss sid")
  case None
  then show ?thesis by (simp add: updateSession_def)
next
  case (Some session)
  show ?thesis
  proof (cases "list_ex (same_message m) (messages session)")
    case True
    from updateSession_skip [OF Some True] show ?thesis by simp
  next
    case False
    from updateSession_append [OF Some False, of now1 e1] obtain session' where
      s': "map_of (updateSession now1 sid m e1 ss) sid = Some session'"
          "messages session' = messages session @ [m]"
      by blast
    have "list_ex (same_message m) (messages session')"
      unfolding s'(2) by (simp add: same_message_def)
    with s'(1) show ?thesis by (rule updateSession_skip)
  qed
qed

lemma length_session_messages_updateSession:
  "length (session_messages sid (updateSession now sid m e ss))
     \<le> length (session_messages sid ss) + 1"
proof (cases "map_of ss sid")
  case None
  then show ?thesis by (simp add: updateSession_def)
next
  case (Some session)
  show ?thesis
  proof (cases "list_ex (same_message m) (messages session)")
    case True
    from updateSession_skip [OF Some True] show ?thesis by simp
  next
    case False
    from updateSession_append [OF Some False, of now e] Some show ?thesis
      by (auto simp: session_messages_def)
  qed
qed

text \<open>
  C8: two calls of \<open>updateSession\<close> with the same message add at most one message to
  the session, the second call changing nothing; and a call changes nothing at all when
  a stored message has the id of the new one, or its text and sender with timestamps
  less than 1000 milliseconds apart.
\<close>

theorem updateSession_twice_at_most_one:
  "length (session_messages sid (updateSession now2 sid m e2 (updateSession now1 sid m e1 ss)))
     \<le> length (session_messages sid ss) + 1 \<and>
   updateSession now2 sid m e2 (updateSession now1 sid m e1 ss) = updateSession now1 sid m e1 ss \<and>
   (\<forall>session x. map_of ss sid = Some session \<and> x \<in> set (messages session) \<and>
        (msg_id x = msg_id m \<or>
         (msg_text x = msg_text m \<and> sender x = sender m \<and>
          \<bar>msg_timestamp x - msg_timestamp m\<bar> < 1000)) \<longrightarrow>
        updateSession now1 sid m e1 ss = ss \<and>
        session_messages sid (updateSession now1 sid m e1 ss) = messages session)"
proof (intro conjI allI impI)
  show "length (session_messages sid (updateSession now2 sid m e2 (updateSession now1 sid m e1 ss)))
     \<le> length (session_messages sid ss) + 1"
    unfolding updateSession_again by (rule length_session_messages_updateSession)
  show "updateSession now2 sid m e2 (updateSession now1 sid m e1 ss) = updateSession now1 sid m e1 ss"
    by (rule updateSession_again)
next
  fix session x
  assume h: "map_of ss sid = Some session \<and> x \<in> set (messages session) \<and>
        (msg_id x = msg_id m \<or>
         (msg_text x = msg_text m \<and> sender x = sender m \<and>
          \<bar>msg_timestamp x - msg_timestamp m\<bar> < 1000))"
  then have "list_ex (same_message m) (messages session)"
    unfolding list_ex_iff same_message_def by blast
  with h have skip: "updateSession now1 sid m e1 ss = ss"
    by (intro updateSession_skip) simp_all
  show "updateSession now1 sid m e1 ss = ss" by (rule skip)
  show "session_messages sid (updateSession now1 sid m e1 ss) = messages session"
    unfolding skip using h by (simp add: session_messages_def)
qed

lemma one_session_eq:
  "one_session = [(''s1'', \<lparr>sessionId = ''s1'', messages = [], lastActivity = 4000,
      session_context = \<lparr>currentTopics = [], emotionalState = ''neutral'', ongoingConcerns = []\<rparr>\<rparr>)]"
  by (simp add: one_session_def getOrCreateSession_def Let_def)

lemma hello_topics: "extractTopicsFromMessage (msg_text hello_message) = [''dating'', ''emotions'']"
  by code_simp

lemma hello_stored:
  "updateSession 6000 ''s1'' hello_message (Some ''happy'') one_session = [(''s1'', hello_session)]"
proof -
  have "sender hello_message = user" by (simp add: hello_message_def)
  then show ?thesis
    by (simp add: one_session_eq updateSession_def hello_topics uniq_def hello_session_def)
qed

theorem updateSession_twice_at_most_one_witness:
  "length (session_messages ''s1''
       (updateSession 7000 ''s1'' hello_message None
          (updateSession 6000 ''s1'' hello_message (Some ''happy'') one_session)))
     \<le> length (session_messages ''s1'' one_session) + 1 \<and>
   map_of (updateSession 6000 ''s1'' hello_message (Some ''happy'') one_session) ''s1''
     = Some hello_session \<and>
   hello_message \<in> set (messages hello_session) \<and>
   msg_text hello_message = msg_text retry_message \<and>
   sender hello_message = sender retry_message \<and>
   \<bar>msg_timestamp hello_message - msg_timestamp retry_message\<bar> < 1000 \<and>
   updateSession 8000 ''s1'' retry_message None
       (updateSession 6000 ''s1'' hello_message (Some ''happy'') one_session)
     = updateSession 6000 ''s1'' hello_message (Some ''happy'') one_session"
proof -
  have h: "map_of [(''s1'', hello_session)] ''s1'' = Some hello_session"
    "hello_message \<in> set (messages hello_session)"
    "msg_text hello_message = msg_text retry_message"
    "sender hello_message = sender retry_message"
    "\<bar>msg_timestamp hello_message - msg_timestamp retry_message\<bar> < 1000"
    by (simp_all add: hello_session_def hello_message_def retry_message_def)
  from updateSession_twice_at_most_one [of "''s1''" 8000 retry_message None 8000 None
      "[(''s1'', hello_session)]"] h
  have skip: "updateSession 8000 ''s1'' retry_message None [(''s1'', hello_session)]
          = [(''s1'', hello_session)]"
    by blast
  from updateSession_twice_at_most_one [of "''s1''" 7000 hello_message None 6000 "Some ''happy''"
      one_session]
  have le: "length (session_messages ''s1''
       (updateSession 7000 ''s1'' hello_message None
          (updateSession 6000 ''s1'' hello_message (Some ''happy'') one_session)))
     \<le> length (session_messages ''s1'' one_session) + 1"
    by blast
  show ?thesis
    using le skip h unfolding hello_stored by blast
qed

section \<open>Properties of the Response Engine\<close>

lemma find_filter_Some: "find P xs = Some x \<Longrightarrow> \<exists>ys. filter P xs = x # ys"
  by (induction xs) (auto split: if_splits)

lemma find_filter_None: "find P xs = None \<Longrightarrow> filter P xs = []"
  by (induction xs) (auto split: if_splits)

text \<open>
  C9: the post-processing appends at most one clarification question, however many
  conflicts there are. When some conflict has severity \<open>high\<close> or type \<open>contradiction\<close>,
  the question of the first such conflict is appended after \<open>Wait bestie,\<close>; otherwise,
  when some conflict has severity \<open>medium\<close>, the question of the first such conflict is
  appended after \<open>By the way,\<close>; otherwise the reply is returned as it is.
\<close>

theorem integrateConflictClarification_one_question:
  "(find (\<lambda>c. severity c = high \<or> conflictType c = contradiction) cs = Some c1 \<longrightarrow>
      integrateConflictClarification response cs
        = response @ newlines @ ''Wait bestie, '' @ clarificationQuestion c1) \<and>
   (find (\<lambda>c. severity c = high \<or> conflictType c = contradiction) cs = None \<and>
    find (\<lambda>c. severity c = medium) cs = Some c2 \<longrightarrow>
      integrateConflictClarification response cs
        = response @ newlines @ ''By the way, '' @ clarificationQuestion c2) \<and>
   (find (\<lambda>c. severity c = high \<or> conflictType c = contradiction) cs = None \<and>
    find (\<lambda>c. severity c = medium) cs = None \<longrightarrow>
      integrateConflictClarification response cs = response) \<and>
   (cs \<noteq> [] \<longrightarrow> response_text reply cs = integrateConflictClarification (trim reply) cs) \<and>
   ''Wait bestie, '' \<noteq> ''By the way, ''"
  by (auto simp: integrateConflictClarification_def response_text_def Let_def
      dest!: find_filter_Some find_filter_None)

theorem integrateConflictClarification_one_question_witness:
  "find (\<lambda>c. severity c = high \<or> conflictType c = contradiction)
       [low_conflict, medium_conflict, spicy_conflict] = Some spicy_conflict \<and>
   integrateConflictClarification ''ok'' [low_conflict, medium_conflict, spicy_conflict]
     = ''ok'' @ newlines @ ''Wait bestie, '' @ clarificationQuestion spicy_conflict \<and>
   find (\<lambda>c. severity c = high \<or> conflictType c = contradiction)
       [low_conflict, medium_conflict] = None \<and>
   find (\<lambda>c. severity c = medium) [low_conflict, medium_conflict] = Some medium_conflict \<and>
   integrateConflictClarification ''ok'' [low_conflict, medium_conflict]
     = ''ok'' @ newlines @ ''By the way, '' @ clarificationQuestion medium_conflict \<and>
   find (\<lambda>c. severity c = high \<or> conflictType c = contradiction) [low_conflict] = None \<and>
   find (\<lambda>c. severity c = medium) [low_conflict] = None \<and>
   integrateConflictClarification ''ok'' [low_conflict] = ''ok'' \<and>
   [low_conflict] \<noteq> [] \<and>
   response_text ''ok'' [low_conflict] = integrateConflictClarification (trim ''ok'') [low_conflict]"
proof -
  have f: "find (\<lambda>c. severity c = high \<or> conflictType c = contradiction)
       [low_conflict, medium_conflict, spicy_conflict] = Some spicy_conflict"
    "find (\<lambda>c. severity c = high \<or> conflictType c = contradiction)
       [low_conflict, medium_conflict] = None"
    "find (\<lambda>c. severity c = medium) [low_conflict, medium_conflict] = Some medium_conflict"
    "find (\<lambda>c. severity c = high \<or> conflictType c = contradiction) [low_conflict] = None"
    "find (\<lambda>c. severity c = medium) [low_conflict] = None"
    by (simp_all add: low_conflict_def medium_conflict_def spicy_conflict_def)
  from integrateConflictClarification_one_question
         [of "[low_conflict, medium_conflict, spicy_conflict]" spicy_conflict "''ok''"]
       integrateConflictClarification_one_question
         [of "[low_conflict, medium_conflict]" _ "''ok''" medium_conflict]
       integrateConflictClarification_one_question
         [of "[low_conflict]" _ "''ok''" _ "''ok''"] f
  show ?thesis by simp
qed

end
